theory Spec2Isabelle
  imports Main "HOL-Library.Word"
begin

section \<open>Role-based keyring of caver-js: data model\<close>

text \<open>
  The development follows \<^verbatim>\<open>packages/caver-wallet/src/keyring/keyring.js\<close> and the
  fee delegated chain data anchoring transaction.  JavaScript values are typed here:
  a \<^verbatim>\<open>Buffer\<close> is a list of bytes, \<^verbatim>\<open>undefined\<close> is \<open>None\<close>, a thrown \<^verbatim>\<open>Error\<close> is the
  left summand of a result.  Functions of the repository that the two source files only
  call (caver-utils, PrivateKey, keyringHelper, the parent transaction class) and the
  primitives of the libraries (crypto, scrypt, uuid, the RLP codec) are parameters,
  collected in the records \<open>utils\<close>, \<open>prims\<close> and \<open>txenv\<close>, unless a definition says
  that it is modelled from the spec.
\<close>

type_synonym bytes = "8 word list"

datatype error =
    RoleUndefined
  | KeyDoesNotExist nat
  | TypeError
  | InvalidTransactionHash
  | ChainIdUndefined
  | RoleUndefinedToSign
  | IndexNotNumber
  | IndexNegative
  | IndexTooLarge
  | NotAvailableV3
  | UnsupportedKdf
  | UnsupportedPbkdf2Params
  | KdfError
  | MacMismatch
  | CipherError
  | UnsupportedKdfEncrypt
  | UnsupportedVersion
  | InvalidV3Format
  | InvalidV4Format
  | CryptoAndKeyring
  | InvalidRoleBasedFormat
  | InvalidKeyFormat
  | InvalidAddress
  | InvalidPrivateKey
  | TooManyKeys
  | UnsupportedRole
  | DecodePrefix
  | InvalidFrom
  | InputAndData
  | InvalidInput
  | SuperError

text \<open>\<^verbatim>\<open>KEY_ROLE\<close> of keyringHelper: the three role numbers and \<^verbatim>\<open>RoleLast\<close> (spec, section 3).\<close>

definition RoleTransactionKey :: nat where "RoleTransactionKey = 0"
definition RoleAccountUpdateKey :: nat where "RoleAccountUpdateKey = 1"
definition RoleFeePayerKey :: nat where "RoleFeePayerKey = 2"
definition RoleLast :: nat where "RoleLast = 3"

datatype PrivateKey = PrivateKey (privateKey: string)

record Keyring =
  address :: string
  keys :: "PrivateKey list list"

text \<open>A chain id is a string or a number; a signature is the array \<^verbatim>\<open>[v, r, s]\<close>.\<close>

datatype jsnumstr = JNumber int | JString string

type_synonym signature = "string list"

text \<open>The \<^verbatim>\<open>index\<close> argument of \<^verbatim>\<open>signWithKey\<close>: left out, an (integral) number, or a
  value that \<^verbatim>\<open>_.isNumber\<close> refuses.\<close>

datatype jsindex = IndexUndefined | IndexNumber int | IndexOther

record utils =
  isAddress :: "string \<Rightarrow> bool"
  isValidHashStrict :: "string \<Rightarrow> bool"
  isValidPrivateKey :: "string \<Rightarrow> bool"
  isHex :: "string \<Rightarrow> bool"
  toHex :: "jsnumstr \<Rightarrow> string"
  getDerivedAddress :: "PrivateKey \<Rightarrow> string"
  sign :: "PrivateKey \<Rightarrow> string \<Rightarrow> string \<Rightarrow> error + signature"
  MAXIMUM_KEY_NUM :: nat

subsection \<open>JavaScript helpers\<close>

text \<open>\<^verbatim>\<open>xs[i]\<close> is \<^verbatim>\<open>undefined\<close> out of range.\<close>

definition nth_opt :: "'a list \<Rightarrow> nat \<Rightarrow> 'a option" where
  "nth_opt xs i = (if i < length xs then Some (xs ! i) else None)"

definition lowerChar :: "char \<Rightarrow> char" where
  "lowerChar ch =
     (if (65::nat) \<le> of_char ch \<and> of_char ch \<le> (90::nat)
      then char_of (of_char ch + (32::nat)) else ch)"

definition toLowerCase :: "string \<Rightarrow> string" where
  "toLowerCase s = map lowerChar s"

definition startsWith :: "string \<Rightarrow> string \<Rightarrow> bool" where
  "startsWith s p = (take (length p) s = p)"

text \<open>Modelled from the spec: \<^verbatim>\<open>utils.addHexPrefix\<close> is not in the sources; the spec speaks
  of the canonical \<^verbatim>\<open>0x\<close> prefix, which is added only where it is missing.\<close>

definition addHexPrefix :: "string \<Rightarrow> string" where
  "addHexPrefix s = (if startsWith s ''0x'' then s else ''0x'' @ s)"

section \<open>Reading keys and signing\<close>

text \<open>\<^verbatim>\<open>getKeyByRole(role)\<close>, keyring.js lines 455-468.\<close>

definition getKeyByRole :: "Keyring \<Rightarrow> nat option \<Rightarrow> error + PrivateKey list" where
  "getKeyByRole kr role =
     (case role of
        None \<Rightarrow> Inl RoleUndefined
      | Some r \<Rightarrow>
          (case nth_opt (keys kr) r of
             None \<Rightarrow> Inl TypeError
           | Some key \<Rightarrow>
               if length key = 0 \<and> r > RoleTransactionKey then
                 (case nth_opt (keys kr) RoleTransactionKey of
                    None \<Rightarrow> Inl TypeError
                  | Some tkey \<Rightarrow>
                      if length tkey = 0 then Inl (KeyDoesNotExist r) else Inr tkey)
               else Inr key))"

text \<open>\<^verbatim>\<open>signWithKey(transactionHash, chainId, role, index = 0)\<close>, lines 373-388.\<close>

definition signWithKey ::
  "utils \<Rightarrow> Keyring \<Rightarrow> string \<Rightarrow> jsnumstr option \<Rightarrow> nat option \<Rightarrow> jsindex \<Rightarrow> error + signature"
where
  "signWithKey U kr transactionHash chainId role index =
     (if \<not> isValidHashStrict U transactionHash then Inl InvalidTransactionHash
      else case chainId of
        None \<Rightarrow> Inl ChainIdUndefined
      | Some cid \<Rightarrow>
          let chainId' = toHex U cid in
          (case role of
             None \<Rightarrow> Inl RoleUndefinedToSign
           | Some r \<Rightarrow>
               (case getKeyByRole kr role of
                  Inl e \<Rightarrow> Inl e
                | Inr ks \<Rightarrow>
                    (case (case index of IndexUndefined \<Rightarrow> IndexNumber 0 | i \<Rightarrow> i) of
                       IndexNumber i \<Rightarrow>
                         if i < 0 then Inl IndexNegative
                         else if i \<ge> int (length ks) then Inl IndexTooLarge
                         else sign U (ks ! nat i) transactionHash chainId'
                     | _ \<Rightarrow> Inl IndexNotNumber))))"

text \<open>\<^verbatim>\<open>isDecoupled()\<close>, lines 619-627.  \<^verbatim>\<open>this.keys[0][0]\<close> is \<^verbatim>\<open>undefined\<close> when the first
  role is empty, and the call of \<^verbatim>\<open>getDerivedAddress\<close> on it is a TypeError.\<close>

definition isDecoupled :: "utils \<Rightarrow> Keyring \<Rightarrow> error + bool" where
  "isDecoupled U kr =
     (let isMultiple = list_ex (\<lambda>roledKey. length roledKey > 1) (keys kr) in
      if isMultiple then Inr True
      else case nth_opt (keys kr) 0 of
        None \<Rightarrow> Inl TypeError
      | Some k0 \<Rightarrow>
          (case nth_opt k0 0 of
             None \<Rightarrow> Inl TypeError
           | Some k \<Rightarrow>
               let derived = getDerivedAddress U k in
               Inr (toLowerCase (address kr) \<noteq> toLowerCase derived)))"

section \<open>Keystore codec\<close>

subsection \<open>Buffers, hex strings and the JavaScript operators used\<close>

definition hexDigit :: "nat \<Rightarrow> char" where
  "hexDigit n = ''0123456789abcdef'' ! n"

definition hexValue :: "char \<Rightarrow> nat option" where
  "hexValue ch =
     map_of
       [(CHR ''0'', 0), (CHR ''1'', 1), (CHR ''2'', 2), (CHR ''3'', 3), (CHR ''4'', 4),
        (CHR ''5'', 5), (CHR ''6'', 6), (CHR ''7'', 7), (CHR ''8'', 8), (CHR ''9'', 9),
        (CHR ''a'', 10), (CHR ''b'', 11), (CHR ''c'', 12), (CHR ''d'', 13), (CHR ''e'', 14),
        (CHR ''f'', 15), (CHR ''A'', 10), (CHR ''B'', 11), (CHR ''C'', 12), (CHR ''D'', 13),
        (CHR ''E'', 14), (CHR ''F'', 15)] ch"

text \<open>\<^verbatim>\<open>buf.toString('hex')\<close>: two lower-case digits for each byte.\<close>

definition byteToHex :: "8 word \<Rightarrow> string" where
  "byteToHex b = [hexDigit (unat b div 16), hexDigit (unat b mod 16)]"

definition bytesToHex :: "bytes \<Rightarrow> string" where
  "bytesToHex bs = concat (map byteToHex bs)"

text \<open>\<^verbatim>\<open>Buffer.from(s, 'hex')\<close>: pairs of digits are read until the first pair that is not
  hexadecimal; an odd last character is dropped.\<close>

fun hexToBytes :: "string \<Rightarrow> bytes" where
  "hexToBytes (a # b # rest) =
     (case hexValue a of
        None \<Rightarrow> []
      | Some x \<Rightarrow>
          (case hexValue b of
             None \<Rightarrow> []
           | Some y \<Rightarrow> of_nat (16 * x + y) # hexToBytes rest))"
| "hexToBytes s = []"

text \<open>\<^verbatim>\<open>Buffer.from(password)\<close>: the characters of the model are the bytes of the string.\<close>

definition passwordBytes :: "string \<Rightarrow> bytes" where
  "passwordBytes s = map (\<lambda>ch. of_nat (of_char ch)) s"

text \<open>\<^verbatim>\<open>s.replace('0x', '')\<close> removes the first occurrence of \<^verbatim>\<open>0x\<close>.\<close>

fun replace0x :: "string \<Rightarrow> string" where
  "replace0x (a # b # rest) =
     (if a = CHR ''0'' \<and> b = CHR ''x'' then rest else a # replace0x (b # rest))"
| "replace0x s = s"

text \<open>\<^verbatim>\<open>x || d\<close> on an optional number, string or buffer: \<^verbatim>\<open>undefined\<close>, \<^verbatim>\<open>0\<close> and the empty
  string are falsy, a buffer never is.\<close>

definition orNumber :: "nat option \<Rightarrow> nat \<Rightarrow> nat" where
  "orNumber x d = (case x of None \<Rightarrow> d | Some n \<Rightarrow> if n = 0 then d else n)"

definition orString :: "string option \<Rightarrow> string \<Rightarrow> string" where
  "orString x d = (case x of None \<Rightarrow> d | Some s \<Rightarrow> if s = [] then d else s)"

subsection \<open>Keystore records, options and primitives\<close>

record kdf_params =
  dklen :: nat
  salt :: string
  kdf_n :: "nat option"
  kdf_r :: "nat option"
  kdf_p :: "nat option"
  kdf_c :: "nat option"
  kdf_prf :: "string option"

record crypto_object =
  ciphertext :: string
  cipherparams_iv :: string
  cipher :: string
  kdf :: string
  kdfparams :: kdf_params
  mac :: string

text \<open>The value of the \<^verbatim>\<open>keyring\<close> (or \<^verbatim>\<open>crypto\<close>) field: a crypto object or an array.\<close>

datatype kjson = Obj crypto_object | Arr "kjson list"

record keystore =
  version :: "int option"
  ks_id :: string
  ks_address :: string
  crypto :: "kjson option"
  keyring :: "kjson option"

record options =
  opt_salt :: "bytes option"
  opt_iv :: "bytes option"
  opt_kdf :: "string option"
  opt_dklen :: "nat option"
  opt_c :: "nat option"
  opt_n :: "nat option"
  opt_r :: "nat option"
  opt_p :: "nat option"
  opt_cipher :: "string option"
  opt_uuid :: "bytes option"

text \<open>The primitives of scrypt-shim, crypto, uuid and \<^verbatim>\<open>utils.sha3\<close>.  A primitive that
  throws returns \<open>None\<close>; \<open>createCipheriv\<close> and \<open>createDecipheriv\<close> stand for the cipher
  object with its \<^verbatim>\<open>update\<close> and \<^verbatim>\<open>final\<close>, from cipher name, key, iv and input.  The
  random source is a state \<open>'r\<close> that \<open>randomBytes\<close> advances.\<close>

record 'r prims =
  scrypt :: "bytes \<Rightarrow> bytes \<Rightarrow> nat option \<Rightarrow> nat option \<Rightarrow> nat option \<Rightarrow> nat \<Rightarrow> bytes option"
  pbkdf2Sync :: "bytes \<Rightarrow> bytes \<Rightarrow> nat option \<Rightarrow> nat \<Rightarrow> bytes option"
  sha3 :: "bytes \<Rightarrow> string option"
  createCipheriv :: "string \<Rightarrow> bytes \<Rightarrow> bytes \<Rightarrow> bytes \<Rightarrow> bytes option"
  createDecipheriv :: "string \<Rightarrow> bytes \<Rightarrow> bytes \<Rightarrow> bytes \<Rightarrow> bytes option"
  randomBytes :: "nat \<Rightarrow> 'r \<Rightarrow> bytes \<times> 'r"
  uuid_v4 :: "bytes \<Rightarrow> string"

text \<open>What a call leaves behind besides its result: the warning of \<^verbatim>\<open>console.warn\<close> and
  each construction of a decipher (cipher name, key, iv).\<close>

datatype event = Warn string | Decipher string bytes bytes

subsection \<open>Key input of the constructor\<close>

text \<open>The constructor sniffs the shape of its \<^verbatim>\<open>keys\<close> argument: a string, a PrivateKey,
  an array of these or an array of arrays.  A \<^verbatim>\<open>null\<close> argument (which leaves the keyring
  without its table) is outside the model.\<close>

datatype keyinput = KUndefined | KString string | KPrivateKey PrivateKey | KArray "keyinput list"

fun isStringK :: "keyinput \<Rightarrow> bool" where
  "isStringK (KString s) = True"
| "isStringK k = False"

fun isArrayK :: "keyinput \<Rightarrow> bool" where
  "isArrayK (KArray xs) = True"
| "isArrayK k = False"

fun isPrivateKeyK :: "keyinput \<Rightarrow> bool" where
  "isPrivateKeyK (KPrivateKey k) = True"
| "isPrivateKeyK k = False"

text \<open>Modelled from the spec: \<^verbatim>\<open>isMultipleKeysFormat\<close> and \<^verbatim>\<open>isRoleBasedKeysFormat\<close> of
  keyringHelper are not in the sources; the spec names the shapes "list of keys" and
  "role-partitioned lists" (at most \<open>RoleLast\<close> lists).\<close>

definition isMultipleKeysFormat :: "keyinput \<Rightarrow> bool" where
  "isMultipleKeysFormat k = (case k of KArray xs \<Rightarrow> list_all isStringK xs | _ \<Rightarrow> False)"

definition isRoleBasedKeysFormat :: "keyinput \<Rightarrow> bool" where
  "isRoleBasedKeysFormat k =
     (case k of KArray xs \<Rightarrow> length xs \<le> RoleLast \<and> list_all isArrayK xs | _ \<Rightarrow> False)"

text \<open>Modelled from the spec: the class PrivateKey is not in the sources; its construction
  fails unless the input is a well-formed private key string, which is kept with the
  \<^verbatim>\<open>0x\<close> prefix.\<close>

definition newPrivateKey :: "utils \<Rightarrow> keyinput \<Rightarrow> error + PrivateKey" where
  "newPrivateKey U k =
     (case k of
        KString s \<Rightarrow>
          if isValidPrivateKey U s then Inr (PrivateKey (addHexPrefix s)) else Inl InvalidPrivateKey
      | _ \<Rightarrow> Inl InvalidPrivateKey)"

definition generateKeysFormat :: "PrivateKey list list" where
  "generateKeysFormat = replicate RoleLast []"

text \<open>The loop of \<^verbatim>\<open>fillRoleKey\<close> (lines 697-700), pushing on \<^verbatim>\<open>keys[role]\<close>.\<close>

fun pushKeys :: "utils \<Rightarrow> PrivateKey list list \<Rightarrow> nat \<Rightarrow> keyinput list \<Rightarrow> error + PrivateKey list list" where
  "pushKeys U ks role [] = Inr ks"
| "pushKeys U ks role (keyString # rest) =
     (case (case keyString of KPrivateKey pk \<Rightarrow> Inr pk | _ \<Rightarrow> newPrivateKey U keyString) of
        Inl e \<Rightarrow> Inl e
      | Inr key \<Rightarrow> pushKeys U (ks[role := ks ! role @ [key]]) role rest)"

text \<open>\<^verbatim>\<open>fillRoleKey(keys, role, keyToAdd)\<close>, lines 686-701.\<close>

definition fillRoleKey ::
  "utils \<Rightarrow> PrivateKey list list \<Rightarrow> nat \<Rightarrow> keyinput option \<Rightarrow> error + PrivateKey list list"
where
  "fillRoleKey U ks role keyToAdd =
     (case keyToAdd of
        None \<Rightarrow> Inr ks
      | Some KUndefined \<Rightarrow> Inr ks
      | Some k \<Rightarrow>
          let arr = (case k of KArray xs \<Rightarrow> xs | _ \<Rightarrow> [k]) in
          if length arr > MAXIMUM_KEY_NUM U then Inl TooManyKeys
          else if role \<ge> RoleLast then Inl UnsupportedRole
          else pushKeys U ks role arr)"

text \<open>\<^verbatim>\<open>keyInput[i]\<close>.\<close>

definition kindex :: "keyinput \<Rightarrow> nat \<Rightarrow> keyinput option" where
  "kindex k i = (case k of KArray xs \<Rightarrow> nth_opt xs i | _ \<Rightarrow> None)"

fun fillRoles :: "utils \<Rightarrow> keyinput \<Rightarrow> nat list \<Rightarrow> PrivateKey list list \<Rightarrow> error + PrivateKey list list" where
  "fillRoles U keyInput [] ks = Inr ks"
| "fillRoles U keyInput (i # rest) ks =
     (case fillRoleKey U ks i (kindex keyInput i) of
        Inl e \<Rightarrow> Inl e
      | Inr ks' \<Rightarrow> fillRoles U keyInput rest ks')"

text \<open>\<^verbatim>\<open>formattingForKeyInKeyring(keyInput)\<close>, lines 649-669.\<close>

definition formattingForKeyInKeyring :: "utils \<Rightarrow> keyinput \<Rightarrow> error + PrivateKey list list" where
  "formattingForKeyInKeyring U keyInput =
     (case
        (if isPrivateKeyK keyInput \<or> isStringK keyInput
           then Inr (KArray [KArray [keyInput], KArray [], KArray []])
         else if isMultipleKeysFormat keyInput
           then Inr (KArray [keyInput, KArray [], KArray []])
         else if \<not> isRoleBasedKeysFormat keyInput then Inl InvalidKeyFormat
         else Inr keyInput)
      of
        Inl e \<Rightarrow> Inl e
      | Inr keyInput' \<Rightarrow> fillRoles U keyInput' [0..<RoleLast] generateKeysFormat)"

text \<open>\<^verbatim>\<open>new Keyring(address, keys)\<close>: the address setter (lines 302-306), then the keys
  setter (lines 336-338).\<close>

definition newKeyring :: "utils \<Rightarrow> string \<Rightarrow> keyinput \<Rightarrow> error + Keyring" where
  "newKeyring U addressInput keyInput =
     (if \<not> isAddress U addressInput then Inl InvalidAddress
      else case formattingForKeyInKeyring U keyInput of
        Inl e \<Rightarrow> Inl e
      | Inr ks \<Rightarrow> Inr \<lparr> address = toLowerCase (addHexPrefix addressInput), keys = ks \<rparr>)"

text \<open>\<^verbatim>\<open>Keyring.createWithRoleBasedKey\<close>, lines 137-144.\<close>

definition createWithRoleBasedKey :: "utils \<Rightarrow> string \<Rightarrow> keyinput \<Rightarrow> error + Keyring" where
  "createWithRoleBasedKey U addr roledBasedKeyArray =
     (if \<not> isRoleBasedKeysFormat roledBasedKeyArray then Inl InvalidRoleBasedFormat
      else newKeyring U addr roledBasedKeyArray)"

subsection \<open>Decryption\<close>

text \<open>The choice of the key derivation in the loop of \<^verbatim>\<open>decryptKey\<close>, lines 715-737.\<close>

definition deriveStoredKey :: "'r prims \<Rightarrow> string \<Rightarrow> crypto_object \<Rightarrow> error + bytes" where
  "deriveStoredKey P password encrypted =
     (if kdf encrypted = ''scrypt'' then
        (let kp = kdfparams encrypted in
         case scrypt P (passwordBytes password) (hexToBytes (salt kp))
                (kdf_n kp) (kdf_r kp) (kdf_p kp) (dklen kp) of
           None \<Rightarrow> Inl KdfError
         | Some derivedKey \<Rightarrow> Inr derivedKey)
      else if kdf encrypted = ''pbkdf2'' then
        (let kp = kdfparams encrypted in
         if kdf_prf kp \<noteq> Some ''hmac-sha256'' then Inl UnsupportedPbkdf2Params
         else case pbkdf2Sync P (passwordBytes password) (hexToBytes (salt kp))
                (kdf_c kp) (dklen kp) of
           None \<Rightarrow> Inl KdfError
         | Some derivedKey \<Rightarrow> Inr derivedKey)
      else Inl UnsupportedKdf)"

text \<open>One round of the loop of \<^verbatim>\<open>decryptKey\<close>, lines 707-748.  An array met where a crypto
  object is expected has no \<^verbatim>\<open>kdf\<close>.  The event log is handed through.\<close>

definition decryptEntry ::
  "'r prims \<Rightarrow> string \<Rightarrow> kjson \<Rightarrow> event list \<Rightarrow> (error + string) \<times> event list"
where
  "decryptEntry P password entry log =
     (case entry of
        Arr xs \<Rightarrow> (Inl UnsupportedKdf, log)
      | Obj encrypted \<Rightarrow>
          (case deriveStoredKey P password encrypted of
             Inl e \<Rightarrow> (Inl e, log)
           | Inr derivedKey \<Rightarrow>
               let ct = hexToBytes (ciphertext encrypted) in
               (case sha3 P (take 16 (drop 16 derivedKey) @ ct) of
                  None \<Rightarrow> (Inl TypeError, log)
                | Some h \<Rightarrow>
                    if replace0x h \<noteq> mac encrypted then (Inl MacMismatch, log)
                    else
                      let key = take 16 derivedKey;
                          ivb = hexToBytes (cipherparams_iv encrypted);
                          log' = log @ [Decipher (cipher encrypted) key ivb]
                      in (case createDecipheriv P (cipher encrypted) key ivb ct of
                            None \<Rightarrow> (Inl CipherError, log')
                          | Some plain \<Rightarrow> (Inr (''0x'' @ bytesToHex plain), log')))))"

fun decryptLoop ::
  "'r prims \<Rightarrow> string \<Rightarrow> kjson list \<Rightarrow> string list \<Rightarrow> event list \<Rightarrow> (error + string list) \<times> event list"
where
  "decryptLoop P password [] decryptedArray log = (Inr decryptedArray, log)"
| "decryptLoop P password (entry # rest) decryptedArray log =
     (case decryptEntry P password entry log of
        (Inl e, log') \<Rightarrow> (Inl e, log')
      | (Inr k, log') \<Rightarrow> decryptLoop P password rest (decryptedArray @ [k]) log')"

text \<open>\<^verbatim>\<open>decryptKey(encryptedArray, password)\<close>, lines 703-750: \<^verbatim>\<open>undefined\<close> for a missing or
  empty array; a crypto object in the place of the array is not iterable.\<close>

definition decryptKey ::
  "'r prims \<Rightarrow> kjson option \<Rightarrow> string \<Rightarrow> event list \<Rightarrow> (error + string list option) \<times> event list"
where
  "decryptKey P encryptedArray password log =
     (case encryptedArray of
        None \<Rightarrow> (Inr None, log)
      | Some (Obj c) \<Rightarrow> (Inl TypeError, log)
      | Some (Arr xs) \<Rightarrow>
          if length xs = 0 then (Inr None, log)
          else (case decryptLoop P password xs [] log of
                  (Inl e, log') \<Rightarrow> (Inl e, log')
                | (Inr ks, log') \<Rightarrow> (Inr (Some ks), log')))"

text \<open>\<^verbatim>\<open>json.keyring[i]\<close> and \<^verbatim>\<open>_.isArray\<close>.\<close>

definition jindex :: "kjson \<Rightarrow> nat \<Rightarrow> kjson option" where
  "jindex j i = (case j of Arr xs \<Rightarrow> nth_opt xs i | Obj c \<Rightarrow> None)"

fun isArr :: "kjson option \<Rightarrow> bool" where
  "isArr (Some (Arr xs)) = True"
| "isArr j = False"

text \<open>\<^verbatim>\<open>k ? keys.push(k) : keys.push([])\<close>, lines 244, 247 and 250.\<close>

definition roleKeys :: "string list option \<Rightarrow> keyinput" where
  "roleKeys k = (case k of None \<Rightarrow> KArray [] | Some ks \<Rightarrow> KArray (map KString ks))"

text \<open>The role-based branch of \<^verbatim>\<open>Keyring.decrypt\<close>, lines 242-250.\<close>

definition decryptRoleBased ::
  "utils \<Rightarrow> 'r prims \<Rightarrow> kjson \<Rightarrow> string \<Rightarrow> string \<Rightarrow> event list \<Rightarrow> (error + Keyring) \<times> event list"
where
  "decryptRoleBased U P kr addr password log =
     (case decryptKey P (jindex kr RoleTransactionKey) password log of
        (Inl e, l1) \<Rightarrow> (Inl e, l1)
      | (Inr transactionKey, l1) \<Rightarrow>
          (case decryptKey P (jindex kr RoleAccountUpdateKey) password l1 of
             (Inl e, l2) \<Rightarrow> (Inl e, l2)
           | (Inr updateKey, l2) \<Rightarrow>
               (case decryptKey P (jindex kr RoleFeePayerKey) password l2 of
                  (Inl e, l3) \<Rightarrow> (Inl e, l3)
                | (Inr feePayerKey, l3) \<Rightarrow>
                    (createWithRoleBasedKey U addr
                       (KArray [roleKeys transactionKey, roleKeys updateKey, roleKeys feePayerKey]),
                     l3))))"

text \<open>The other branch, lines 252-259: the padding loop runs
  \<^verbatim>\<open>KEY_ROLE.RoleLast - decrypted.length\<close> times.\<close>

definition decryptFlat ::
  "utils \<Rightarrow> 'r prims \<Rightarrow> kjson \<Rightarrow> string \<Rightarrow> string \<Rightarrow> event list \<Rightarrow> (error + Keyring) \<times> event list"
where
  "decryptFlat U P kr addr password log =
     (case decryptKey P (Some kr) password log of
        (Inl e, l1) \<Rightarrow> (Inl e, l1)
      | (Inr d, l1) \<Rightarrow>
          let decrypted = (case d of Some ks \<Rightarrow> map KString ks | None \<Rightarrow> [KUndefined]) in
          (createWithRoleBasedKey U addr
             (KArray (KArray decrypted # replicate (RoleLast - length decrypted) (KArray []))),
           l1))"

text \<open>\<^verbatim>\<open>Keyring.decrypt(keystore, password)\<close>, lines 221-263, on a keystore object.\<close>

definition decrypt :: "utils \<Rightarrow> 'r prims \<Rightarrow> keystore \<Rightarrow> string \<Rightarrow> (error + Keyring) \<times> event list" where
  "decrypt U P json password =
     (let log = (if version json \<noteq> Some 3 \<and> version json \<noteq> Some 4
                 then [Warn ''This is not a V3 or V4 wallet.''] else [])
      in
      if version json = Some 3 \<and> crypto json = None then (Inl InvalidV3Format, log)
      else if version json = Some 4 \<and> keyring json = None then (Inl InvalidV4Format, log)
      else
        (case (case crypto json of
                 Some c \<Rightarrow> if keyring json \<noteq> None then Inl CryptoAndKeyring else Inr (Some (Arr [c]))
               | None \<Rightarrow> Inr (keyring json)) of
           Inl e \<Rightarrow> (Inl e, log)
         | Inr None \<Rightarrow> (Inl TypeError, log)
         | Inr (Some kr) \<Rightarrow>
             if isArr (jindex kr 0) then decryptRoleBased U P kr (ks_address json) password log
             else decryptFlat U P kr (ks_address json) password log))"

subsection \<open>Encryption\<close>

text \<open>One round of the loop of \<^verbatim>\<open>encryptKey\<close>, lines 759-818.\<close>

definition encryptEntry ::
  "'r prims \<Rightarrow> PrivateKey \<Rightarrow> string \<Rightarrow> options \<Rightarrow> 'r \<Rightarrow> error + (crypto_object \<times> 'r)"
where
  "encryptEntry P key password opts rng =
     (let (saltb, rng1) = (case opt_salt opts of Some b \<Rightarrow> (b, rng) | None \<Rightarrow> randomBytes P 32 rng);
          (ivb, rng2) = (case opt_iv opts of Some b \<Rightarrow> (b, rng1) | None \<Rightarrow> randomBytes P 16 rng1);
          kdfName = orString (opt_kdf opts) ''scrypt'';
          kp0 = \<lparr> dklen = orNumber (opt_dklen opts) 32, salt = bytesToHex saltb,
                  kdf_n = None, kdf_r = None, kdf_p = None, kdf_c = None, kdf_prf = None \<rparr>
      in
      case
        (if kdfName = ''pbkdf2'' then
           (let kp = kp0 \<lparr> kdf_c := Some (orNumber (opt_c opts) 262144),
                           kdf_prf := Some ''hmac-sha256'' \<rparr> in
            case pbkdf2Sync P (passwordBytes password) (hexToBytes (salt kp)) (kdf_c kp) (dklen kp) of
              None \<Rightarrow> Inl KdfError
            | Some derivedKey \<Rightarrow> Inr (kp, derivedKey))
         else if kdfName = ''scrypt'' then
           (let kp = kp0 \<lparr> kdf_n := Some (orNumber (opt_n opts) 4096),
                           kdf_r := Some (orNumber (opt_r opts) 8),
                           kdf_p := Some (orNumber (opt_p opts) 1) \<rparr> in
            case scrypt P (passwordBytes password) (hexToBytes (salt kp))
                   (kdf_n kp) (kdf_r kp) (kdf_p kp) (dklen kp) of
              None \<Rightarrow> Inl KdfError
            | Some derivedKey \<Rightarrow> Inr (kp, derivedKey))
         else Inl UnsupportedKdfEncrypt)
      of
        Inl e \<Rightarrow> Inl e
      | Inr (kp, derivedKey) \<Rightarrow>
          let cipherName = orString (opt_cipher opts) ''aes-128-ctr'' in
          (case createCipheriv P cipherName (take 16 derivedKey) ivb
                  (hexToBytes (replace0x (privateKey key))) of
             None \<Rightarrow> Inl CipherError
           | Some ct \<Rightarrow>
               (case sha3 P (take 16 (drop 16 derivedKey) @ ct) of
                  None \<Rightarrow> Inl TypeError
                | Some h \<Rightarrow>
                    Inr (\<lparr> ciphertext = bytesToHex ct, cipherparams_iv = bytesToHex ivb,
                           cipher = cipherName, kdf = kdfName, kdfparams = kp,
                           mac = replace0x h \<rparr>, rng2))))"

fun encryptLoop ::
  "'r prims \<Rightarrow> PrivateKey list \<Rightarrow> string \<Rightarrow> options \<Rightarrow> crypto_object list \<Rightarrow> 'r \<Rightarrow>
   error + (crypto_object list \<times> 'r)"
where
  "encryptLoop P [] password opts encryptedArray rng = Inr (encryptedArray, rng)"
| "encryptLoop P (key # rest) password opts encryptedArray rng =
     (case encryptEntry P key password opts rng of
        Inl e \<Rightarrow> Inl e
      | Inr (c, rng') \<Rightarrow> encryptLoop P rest password opts (encryptedArray @ [c]) rng')"

text \<open>The \<^verbatim>\<open>privateKey\<close> argument of \<^verbatim>\<open>encryptKey\<close>: \<^verbatim>\<open>undefined\<close>, one key or an array.\<close>

datatype keyarg = NoKey | SingleKey PrivateKey | KeyList "PrivateKey list"

text \<open>\<^verbatim>\<open>encryptKey(privateKey, password, options)\<close>, lines 752-821.\<close>

definition encryptKey ::
  "'r prims \<Rightarrow> keyarg \<Rightarrow> string \<Rightarrow> options \<Rightarrow> 'r \<Rightarrow> error + (crypto_object list \<times> 'r)"
where
  "encryptKey P privateKeyArg password opts rng =
     (case privateKeyArg of
        NoKey \<Rightarrow> Inr ([], rng)
      | SingleKey k \<Rightarrow> encryptLoop P [k] password opts [] rng
      | KeyList ks \<Rightarrow> encryptLoop P ks password opts [] rng)"

text \<open>\<^verbatim>\<open>formatEncrypted(version, address, keyringOrCrypto, options)\<close>, lines 823-839.\<close>

definition formatEncrypted ::
  "'r prims \<Rightarrow> int \<Rightarrow> string \<Rightarrow> kjson option \<Rightarrow> options \<Rightarrow> 'r \<Rightarrow> error + (keystore \<times> 'r)"
where
  "formatEncrypted P v addr keyringOrCrypto opts rng =
     (let (rnd, rng') = (case opt_uuid opts of Some b \<Rightarrow> (b, rng) | None \<Rightarrow> randomBytes P 16 rng);
          ks = \<lparr> version = Some v, ks_id = uuid_v4 P rnd, ks_address = toLowerCase addr,
                 crypto = None, keyring = None \<rparr>
      in
      if v = 3 then Inr (ks \<lparr> crypto := keyringOrCrypto \<rparr>, rng')
      else if v = 4 then Inr (ks \<lparr> keyring := keyringOrCrypto \<rparr>, rng')
      else Inl UnsupportedVersion)"

text \<open>The loop of \<^verbatim>\<open>encrypt\<close>, lines 579-583; \<^verbatim>\<open>roledKey.length\<close> is read only for a role
  after the first.\<close>

fun encryptRoles ::
  "'r prims \<Rightarrow> Keyring \<Rightarrow> string \<Rightarrow> options \<Rightarrow> nat list \<Rightarrow> kjson list \<Rightarrow> bool \<Rightarrow> 'r \<Rightarrow>
   error + (kjson list \<times> bool \<times> 'r)"
where
  "encryptRoles P kr password opts [] keyringArr isRoleBased rng =
     Inr (keyringArr, isRoleBased, rng)"
| "encryptRoles P kr password opts (i # rest) keyringArr isRoleBased rng =
     (case nth_opt (keys kr) i of
        None \<Rightarrow>
          if i > RoleTransactionKey then Inl TypeError
          else (case encryptKey P NoKey password opts rng of
                  Inl e \<Rightarrow> Inl e
                | Inr (enc, rng') \<Rightarrow>
                    encryptRoles P kr password opts rest (keyringArr @ [Arr (map Obj enc)])
                      isRoleBased rng')
      | Some roledKey \<Rightarrow>
          (case encryptKey P (KeyList roledKey) password opts rng of
             Inl e \<Rightarrow> Inl e
           | Inr (enc, rng') \<Rightarrow>
               encryptRoles P kr password opts rest (keyringArr @ [Arr (map Obj enc)])
                 (isRoleBased \<or> (i > RoleTransactionKey \<and> length roledKey > 0)) rng'))"

text \<open>\<^verbatim>\<open>keyring.encrypt(password, options)\<close>, lines 575-588.\<close>

definition encrypt :: "'r prims \<Rightarrow> Keyring \<Rightarrow> string \<Rightarrow> options \<Rightarrow> 'r \<Rightarrow> error + (keystore \<times> 'r)" where
  "encrypt P kr password opts rng =
     (case encryptRoles P kr password opts [RoleTransactionKey..<RoleLast] [] False rng of
        Inl e \<Rightarrow> Inl e
      | Inr (keyringArr, isRoleBased, rng') \<Rightarrow>
          formatEncrypted P 4 (address kr)
            (if \<not> isRoleBased then nth_opt keyringArr 0 else Some (Arr keyringArr)) opts rng')"

text \<open>The loop of \<^verbatim>\<open>encryptV3\<close>, lines 601-605.\<close>

fun otherRolesEmpty :: "Keyring \<Rightarrow> nat list \<Rightarrow> error + unit" where
  "otherRolesEmpty kr [] = Inr ()"
| "otherRolesEmpty kr (i # rest) =
     (case nth_opt (keys kr) i of
        None \<Rightarrow> Inl TypeError
      | Some k \<Rightarrow> if length k > 0 then Inl NotAvailableV3 else otherRolesEmpty kr rest)"

definition emptyOptions :: options where
  "emptyOptions =
     \<lparr> opt_salt = None, opt_iv = None, opt_kdf = None, opt_dklen = None, opt_c = None,
       opt_n = None, opt_r = None, opt_p = None, opt_cipher = None, opt_uuid = None \<rparr>"

text \<open>\<^verbatim>\<open>keyring.encryptV3(password, options)\<close>, lines 597-612.  \<^verbatim>\<open>this._keys[0][0]\<close> is
  \<^verbatim>\<open>undefined\<close> when the first role is empty.\<close>

definition encryptV3 ::
  "'r prims \<Rightarrow> Keyring \<Rightarrow> string \<Rightarrow> options option \<Rightarrow> 'r \<Rightarrow> error + (keystore \<times> 'r)"
where
  "encryptV3 P kr password optsArg rng =
     (case nth_opt (keys kr) RoleTransactionKey of
        None \<Rightarrow> Inl TypeError
      | Some tkeys \<Rightarrow>
          if length tkeys > 1 then Inl NotAvailableV3
          else
            (case otherRolesEmpty kr [RoleAccountUpdateKey..<RoleLast] of
               Inl e \<Rightarrow> Inl e
             | Inr u \<Rightarrow>
                 let opts = (case optsArg of None \<Rightarrow> emptyOptions | Some opts \<Rightarrow> opts) in
                 (case encryptKey P (case nth_opt tkeys 0 of None \<Rightarrow> NoKey | Some k \<Rightarrow> SingleKey k)
                         password opts rng of
                    Inl e \<Rightarrow> Inl e
                  | Inr (enc, rng') \<Rightarrow>
                      formatEncrypted P 3 (address kr) (Some (Arr (map Obj enc))) opts rng')))"

section \<open>Fee delegated chain data anchoring transaction\<close>

text \<open>The values that \<^verbatim>\<open>RLP.encode\<close> takes and \<^verbatim>\<open>RLP.decode\<close> returns: a hex string or an
  array of such values.  A field of the construction object is such a value or
  \<^verbatim>\<open>undefined\<close>.\<close>

datatype rlp = RHex string | RList "rlp list"

record txobj =
  o_nonce :: "rlp option"
  o_gasPrice :: "rlp option"
  o_gas :: "rlp option"
  o_from :: "rlp option"
  o_input :: "rlp option"
  o_data :: "rlp option"
  o_signatures :: "rlp option"
  o_feePayer :: "rlp option"
  o_feePayerSignatures :: "rlp option"

text \<open>The transaction object with the fields of the data model (spec, section 3): the
  three numbers, the two addresses, the payload and the two signature lists.\<close>

record tx =
  t_nonce :: nat
  t_gasPrice :: nat
  t_gas :: nat
  t_from :: string
  t_input :: string
  t_signatures :: rlp
  t_feePayer :: string
  t_feePayerSignatures :: rlp

text \<open>What the transaction file only calls, as parameters: the type tag
  \<^verbatim>\<open>TX_TYPE_TAG.TxTypeFeeDelegatedChainDataAnchoring\<close>, the RLP codec and \<^verbatim>\<open>Bytes.fromNat\<close> of
  eth-lib, \<^verbatim>\<open>utils.trimLeadingZero\<close>, and of the parent class the constructor (which fills
  every field but \<open>from\<close> and \<open>input\<close>) and \<^verbatim>\<open>validateOptionalValues\<close>.\<close>

record txenv =
  TAG :: string
  rlpEncode :: "rlp \<Rightarrow> string"
  rlpDecode :: "string \<Rightarrow> rlp"
  fromNat :: "nat \<Rightarrow> string"
  trimLeadingZero :: "rlp option \<Rightarrow> error + rlp option"
  superNew :: "txobj \<Rightarrow> error + tx"
  validateOptionalValues :: "tx \<Rightarrow> error option"

text \<open>Array destructuring: an array gives its elements, a string its characters.\<close>

definition destructure :: "rlp \<Rightarrow> rlp list" where
  "destructure v = (case v of RList xs \<Rightarrow> xs | RHex s \<Rightarrow> map (\<lambda>ch. RHex [ch]) s)"

text \<open>\<^verbatim>\<open>_decode(rlpEncoded)\<close>, lines 26-45.\<close>

definition decode_raw :: "txenv \<Rightarrow> string \<Rightarrow> error + txobj" where
  "decode_raw E rlpEncoded0 =
     (let rlpEncoded = addHexPrefix rlpEncoded0 in
      if \<not> startsWith rlpEncoded (TAG E) then Inl DecodePrefix
      else
        let typeDettached = ''0x'' @ drop 4 rlpEncoded;
            fields = destructure (rlpDecode E typeDettached)
        in
        (case trimLeadingZero E (nth_opt fields 0) of
           Inl e \<Rightarrow> Inl e
         | Inr nonce \<Rightarrow>
             (case trimLeadingZero E (nth_opt fields 1) of
                Inl e \<Rightarrow> Inl e
              | Inr gasPrice \<Rightarrow>
                  (case trimLeadingZero E (nth_opt fields 2) of
                     Inl e \<Rightarrow> Inl e
                   | Inr gas \<Rightarrow>
                       Inr \<lparr> o_nonce = nonce, o_gasPrice = gasPrice, o_gas = gas,
                             o_from = nth_opt fields 3, o_input = nth_opt fields 4,
                             o_data = None, o_signatures = nth_opt fields 5,
                             o_feePayer = nth_opt fields 6,
                             o_feePayerSignatures = nth_opt fields 7 \<rparr>))))"

text \<open>The setter of \<open>from\<close>, lines 89-92, and of \<open>input\<close>, lines 101-104.\<close>

definition set_from :: "utils \<Rightarrow> tx \<Rightarrow> rlp option \<Rightarrow> error + tx" where
  "set_from U this addr =
     (case addr of
        Some (RHex a) \<Rightarrow>
          if \<not> isAddress U a then Inl InvalidFrom else Inr (this \<lparr> t_from := toLowerCase a \<rparr>)
      | _ \<Rightarrow> Inl InvalidFrom)"

definition set_input :: "utils \<Rightarrow> tx \<Rightarrow> rlp option \<Rightarrow> error + tx" where
  "set_input U this inp =
     (case inp of
        Some (RHex s) \<Rightarrow>
          if s = [] \<or> \<not> isHex U s then Inl InvalidInput
          else Inr (this \<lparr> t_input := addHexPrefix s \<rparr>)
      | _ \<Rightarrow> Inl InvalidInput)"

text \<open>JavaScript truthiness of a field and \<^verbatim>\<open>a || b\<close>.\<close>

definition truthy :: "rlp option \<Rightarrow> bool" where
  "truthy v = (case v of None \<Rightarrow> False | Some (RHex s) \<Rightarrow> s \<noteq> [] | Some (RList xs) \<Rightarrow> True)"

definition jsOr :: "rlp option \<Rightarrow> rlp option \<Rightarrow> rlp option" where
  "jsOr a b = (if truthy a then a else b)"

text \<open>The argument of the constructor: an RLP-encoded string or an object.\<close>

datatype ctorarg = ArgString string | ArgObject txobj

text \<open>\<^verbatim>\<open>constructor(createTxObj)\<close>, lines 70-80.\<close>

definition newFeeDelegatedChainDataAnchoring :: "utils \<Rightarrow> txenv \<Rightarrow> ctorarg \<Rightarrow> error + tx" where
  "newFeeDelegatedChainDataAnchoring U E arg =
     (case (case arg of ArgString s \<Rightarrow> decode_raw E s | ArgObject obj \<Rightarrow> Inr obj) of
        Inl e \<Rightarrow> Inl e
      | Inr createTxObj \<Rightarrow>
          (case superNew E createTxObj of
             Inl e \<Rightarrow> Inl e
           | Inr this0 \<Rightarrow>
               (case set_from U this0 (o_from createTxObj) of
                  Inl e \<Rightarrow> Inl e
                | Inr this1 \<Rightarrow>
                    if truthy (o_input createTxObj) \<and> truthy (o_data createTxObj)
                    then Inl InputAndData
                    else set_input U this1 (jsOr (o_input createTxObj) (o_data createTxObj)))))"

text \<open>\<^verbatim>\<open>static decode(rlpEncoded)\<close>, lines 59-61.\<close>

definition decode :: "utils \<Rightarrow> txenv \<Rightarrow> string \<Rightarrow> error + tx" where
  "decode U E rlpEncoded =
     (case decode_raw E rlpEncoded of
        Inl e \<Rightarrow> Inl e
      | Inr obj \<Rightarrow> newFeeDelegatedChainDataAnchoring U E (ArgObject obj))"

text \<open>The array handed to \<^verbatim>\<open>RLP.encode\<close> in \<^verbatim>\<open>getRLPEncoding\<close>, lines 115-124.\<close>

definition rlpFields :: "txenv \<Rightarrow> tx \<Rightarrow> rlp" where
  "rlpFields E this =
     RList [RHex (fromNat E (t_nonce this)), RHex (fromNat E (t_gasPrice this)),
            RHex (fromNat E (t_gas this)), RHex (toLowerCase (t_from this)),
            RHex (t_input this), t_signatures this,
            RHex (toLowerCase (t_feePayer this)), t_feePayerSignatures this]"

text \<open>\<^verbatim>\<open>getRLPEncoding()\<close>, lines 110-126.\<close>

definition getRLPEncoding :: "txenv \<Rightarrow> tx \<Rightarrow> error + string" where
  "getRLPEncoding E this =
     (case validateOptionalValues E this of
        Some e \<Rightarrow> Inl e
      | None \<Rightarrow> Inr (TAG E @ drop 2 (rlpEncode E (rlpFields E this))))"

subsection \<open>The parent constructor\<close>

text \<open>Modelled from the spec: the parent class of the transaction is not in the sources.
  An object in which \<open>input\<close> and \<open>data\<close> are both present is a construction error
  (spec, sections 3 and 4.5).  By the data model the three numbers are non-negative
  integers, read here from the big-endian hex digits of the field; the fee payer has to
  pass the address check and is stored in lower case; a signature list is kept as given,
  and one left out is the list of the one empty signature \<^verbatim>\<open>['0x01', '0x', '0x']\<close>.\<close>

definition natOfHex :: "string \<Rightarrow> nat" where
  "natOfHex s = foldl (\<lambda>a ch. 16 * a + (case hexValue ch of Some v \<Rightarrow> v | None \<Rightarrow> 0)) 0 s"

definition isHexString :: "string \<Rightarrow> bool" where
  "isHexString s = list_all (\<lambda>ch. hexValue ch \<noteq> None) s"

definition number_spec :: "rlp option \<Rightarrow> error + nat" where
  "number_spec v =
     (case v of
        Some (RHex s) \<Rightarrow>
          if startsWith s ''0x'' \<and> isHexString (drop 2 s) then Inr (natOfHex (drop 2 s))
          else Inl SuperError
      | _ \<Rightarrow> Inl SuperError)"

definition signatures_spec :: "rlp option \<Rightarrow> rlp" where
  "signatures_spec v =
     (case v of
        None \<Rightarrow> RList [RList [RHex ''0x01'', RHex ''0x'', RHex ''0x'']]
      | Some sigs \<Rightarrow> sigs)"

definition superNew_spec :: "utils \<Rightarrow> txobj \<Rightarrow> error + tx" where
  "superNew_spec U obj =
     (if o_input obj \<noteq> None \<and> o_data obj \<noteq> None then Inl SuperError
      else
        (case number_spec (o_nonce obj) of
           Inl e \<Rightarrow> Inl e
         | Inr n \<Rightarrow>
             (case number_spec (o_gasPrice obj) of
                Inl e \<Rightarrow> Inl e
              | Inr gp \<Rightarrow>
                  (case number_spec (o_gas obj) of
                     Inl e \<Rightarrow> Inl e
                   | Inr g \<Rightarrow>
                       (case o_feePayer obj of
                          Some (RHex a) \<Rightarrow>
                            if \<not> isAddress U a then Inl SuperError
                            else Inr \<lparr> t_nonce = n, t_gasPrice = gp, t_gas = g, t_from = [],
                                       t_input = [],
                                       t_signatures = signatures_spec (o_signatures obj),
                                       t_feePayer = toLowerCase a,
                                       t_feePayerSignatures =
                                         signatures_spec (o_feePayerSignatures obj) \<rparr>
                        | _ \<Rightarrow> Inl SuperError)))))"

text \<open>A parent constructor that fails on every object in which \<open>input\<close> and \<open>data\<close> are
  both present, whatever their values.\<close>

definition parentRejectsBoth :: "txenv \<Rightarrow> bool" where
  "parentRejectsBoth E =
     (\<forall>obj. o_input obj \<noteq> None \<and> o_data obj \<noteq> None \<longrightarrow> isl (superNew E obj))"

section \<open>Well-formed keyrings and primitives\<close>

text \<open>\<^verbatim>\<open>isEmptyKey(keys)\<close>, lines 677-684 (on a key table that is not \<^verbatim>\<open>null\<close>).\<close>

definition isEmptyKey :: "PrivateKey list list \<Rightarrow> bool" where
  "isEmptyKey ks = list_all (\<lambda>key. \<not> length key > 0) ks"

text \<open>The bytes of a key that \<^verbatim>\<open>encryptKey\<close> ciphers (line 802), and the key that
  \<^verbatim>\<open>decryptKey\<close> and the constructor give back for these bytes (line 747): its string is
  the prefix \<^verbatim>\<open>0x\<close> and the digits of \<^verbatim>\<open>toString('hex')\<close>, which are lower-case.\<close>

definition keyBytes :: "PrivateKey \<Rightarrow> bytes" where
  "keyBytes k = hexToBytes (replace0x (privateKey k))"

definition normalizedString :: "PrivateKey \<Rightarrow> string" where
  "normalizedString k = ''0x'' @ bytesToHex (keyBytes k)"

definition normalizeKey :: "PrivateKey \<Rightarrow> PrivateKey" where
  "normalizeKey k = PrivateKey (normalizedString k)"

text \<open>A key string that is already written that way.  The constructor keeps the string
  of a key as it is given, upper-case digits included, so that only some keyrings hold
  such keys.\<close>

definition canonicalKey :: "PrivateKey \<Rightarrow> bool" where
  "canonicalKey k =
     (startsWith (privateKey k) ''0x'' \<and>
      bytesToHex (hexToBytes (drop 2 (privateKey k))) = drop 2 (privateKey k))"

text \<open>The invariants of the data model (spec, section 3): the address passes the format
  check and is stored with its prefix in lower case; there are \<open>RoleLast\<close> role lists of
  at most \<open>MAXIMUM_KEY_NUM\<close> keys each.  The check of a private key is the parameter
  \<open>isValidPrivateKey\<close>: a key has to pass it when it is read back from a keystore, that
  is, as the same bytes written in lower-case digits.\<close>

definition validKey :: "utils \<Rightarrow> PrivateKey \<Rightarrow> bool" where
  "validKey U k = isValidPrivateKey U (normalizedString k)"

definition wellFormedKeyring :: "utils \<Rightarrow> Keyring \<Rightarrow> bool" where
  "wellFormedKeyring U kr =
     (isAddress U (address kr) \<and> toLowerCase (addHexPrefix (address kr)) = address kr \<and>
      length (keys kr) = RoleLast \<and>
      list_all (\<lambda>roledKey. length roledKey \<le> MAXIMUM_KEY_NUM U \<and> list_all (validKey U) roledKey)
        (keys kr))"

text \<open>What is expected of the cipher: deciphering with the same name, key and iv gives the
  plain text back.\<close>

definition cipherInverse :: "'r prims \<Rightarrow> bool" where
  "cipherInverse P =
     (\<forall>name key ivb plain ct.
        createCipheriv P name key ivb plain = Some ct \<longrightarrow>
        createDecipheriv P name key ivb ct = Some plain)"

text \<open>\<open>c\<close> is an encryption of \<open>k\<close> in some state of the random source.\<close>

definition encrypts :: "'r prims \<Rightarrow> string \<Rightarrow> options \<Rightarrow> PrivateKey \<Rightarrow> crypto_object \<Rightarrow> bool" where
  "encrypts P password opts k c = (\<exists>r r'. encryptEntry P k password opts r = Inr (c, r'))"

section \<open>Concrete instances\<close>

subsection \<open>A concrete instance of the parameters\<close>

text \<open>Used to run the model on concrete keyrings: every format check accepts, an address
  is derived by dropping the first and keeping forty characters of the key string, and a
  signature lists the chain id, the key and the digest.\<close>

definition example_utils :: utils where
  "example_utils =
     \<lparr> isAddress = (\<lambda>a. True), isValidHashStrict = (\<lambda>h. True),
       isValidPrivateKey = (\<lambda>k. True), isHex = (\<lambda>h. True),
       toHex = (\<lambda>c. case c of JNumber n \<Rightarrow> (if n = 1 then ''0x1'' else ''0x0'') | JString s \<Rightarrow> s),
       getDerivedAddress = (\<lambda>k. ''0x'' @ take 2 (drop 2 (privateKey k))),
       sign = (\<lambda>k h c. Inr [c, privateKey k, h]),
       MAXIMUM_KEY_NUM = 10 \<rparr>"

definition example_keyring :: Keyring where
  "example_keyring =
     \<lparr> address = ''0xaa'',
       keys = [[PrivateKey ''0xaa01'', PrivateKey ''0xbb02''], [], [PrivateKey ''0xcc03'']] \<rparr>"

text \<open>A keyring with one key whose string has upper-case digits, as the constructor
  builds it from that string.\<close>

definition mixedCase_keyring :: Keyring where
  "mixedCase_keyring =
     \<lparr> address = ''0xa94f5374fce5edbc8e2a8697c15331677e6ebf0b'',
       keys = [[PrivateKey ''0x45A915E4D060149EB4365960E6A7A45F334393093061116B197E3240065FF2D8''],
               [], []] \<rparr>"

text \<open>Toy primitives to run the codec: the derived key repeats a byte computed from the
  password (and the salt), the hash is the hex string of its input, the cipher adds the
  sums of key and iv to every byte, the random source counts.\<close>

definition example_prims :: "nat prims" where
  "example_prims =
     \<lparr> scrypt = (\<lambda>pw s n r p dk. Some (replicate dk (of_nat (length pw + length s)))),
       pbkdf2Sync = (\<lambda>pw s c dk. Some (replicate dk (of_nat (length pw)))),
       sha3 = (\<lambda>bs. Some (''0x'' @ bytesToHex bs)),
       createCipheriv = (\<lambda>name key ivb plain.
          if name = ''aes-128-ctr'' then Some (map (\<lambda>b. b + sum_list key + sum_list ivb) plain) else None),
       createDecipheriv = (\<lambda>name key ivb ct.
          if name = ''aes-128-ctr'' then Some (map (\<lambda>b. b - sum_list ivb - sum_list key) ct) else None),
       randomBytes = (\<lambda>n st. (replicate n (of_nat st), Suc st)),
       uuid_v4 = bytesToHex \<rparr>"

definition example_options :: options where
  "example_options =
     \<lparr> opt_salt = Some [1, 2], opt_iv = Some [3], opt_kdf = Some ''pbkdf2'', opt_dklen = Some 17,
       opt_c = None, opt_n = None, opt_r = None, opt_p = None, opt_cipher = None,
       opt_uuid = Some [7] \<rparr>"

text \<open>A crypto object whose \<open>mac\<close> fits the password \<^verbatim>\<open>pw\<close> under the toy primitives.\<close>

definition example_crypto :: crypto_object where
  "example_crypto =
     \<lparr> ciphertext = ''ab'', cipherparams_iv = ''03'', cipher = ''aes-128-ctr'', kdf = ''pbkdf2'',
       kdfparams = \<lparr> dklen = 17, salt = ''0102'', kdf_n = None, kdf_r = None, kdf_p = None,
                     kdf_c = Some 2, kdf_prf = Some ''hmac-sha256'' \<rparr>,
       mac = ''02ab'' \<rparr>"

definition example_keystore :: keystore where
  "example_keystore =
     \<lparr> version = Some 5, ks_id = ''07'', ks_address = ''0xaa'', crypto = None,
       keyring = Some (Arr [Obj example_crypto]) \<rparr>"

subsection \<open>A concrete transaction\<close>

text \<open>Nonce 1, gas price 0, gas 500, one signature of the sender and one of the fee payer,
  as a transaction and as the object it is constructed from.  The example environment has
  the tag \<^verbatim>\<open>0x49\<close>, a codec that knows the encoding of these fields, numbers written as
  one byte, no trimming, a parent constructor that accepts every object and fills the
  fields of the example, and a validation that passes.  The second environment has the
  parent constructor modelled above.\<close>

definition example_tx :: tx where
  "example_tx =
     \<lparr> t_nonce = 1, t_gasPrice = 0, t_gas = 500, t_from = ''0xaa'', t_input = ''0xab'',
       t_signatures = RList [RList [RHex ''0x25'', RHex ''0x01'', RHex ''0x02'']],
       t_feePayer = ''0xbb'',
       t_feePayerSignatures = RList [RList [RHex ''0x26'', RHex ''0x03'', RHex ''0x04'']] \<rparr>"

definition example_fields :: "string \<Rightarrow> string \<Rightarrow> string \<Rightarrow> rlp" where
  "example_fields n gp g =
     RList [RHex n, RHex gp, RHex g, RHex ''0xaa'', RHex ''0xab'',
            RList [RList [RHex ''0x25'', RHex ''0x01'', RHex ''0x02'']], RHex ''0xbb'',
            RList [RList [RHex ''0x26'', RHex ''0x03'', RHex ''0x04'']]]"

definition example_txenv :: txenv where
  "example_txenv =
     \<lparr> TAG = ''0x49'',
       rlpEncode = (\<lambda>t. if t = example_fields ''0x01'' ''0x'' ''0x01f4''
            then ''0xd501808201f481aa81abc4c325010281bbc4c3260304'' else ''0xc0''),
       rlpDecode = (\<lambda>s. if s = ''0xd501808201f481aa81abc4c325010281bbc4c3260304''
              then example_fields ''0x01'' ''0x'' ''0x01f4''
            else RList []),
       fromNat = (\<lambda>n. ''0x'' @ (if n = 0 then [] else byteToHex (of_nat n))),
       trimLeadingZero = Inr,
       superNew = (\<lambda>obj. Inr (example_tx \<lparr> t_from := [], t_input := [] \<rparr>)),
       validateOptionalValues = (\<lambda>t. None) \<rparr>"

definition example_spec_txenv :: txenv where
  "example_spec_txenv = example_txenv \<lparr> superNew := superNew_spec example_utils \<rparr>"

definition example_txobj :: txobj where
  "example_txobj =
     \<lparr> o_nonce = Some (RHex ''0x01''), o_gasPrice = Some (RHex ''0x''),
       o_gas = Some (RHex ''0x01f4''), o_from = Some (RHex ''0xaa''),
       o_input = Some (RHex ''0xab''), o_data = None,
       o_signatures = Some (RList [RList [RHex ''0x25'', RHex ''0x01'', RHex ''0x02'']]),
       o_feePayer = Some (RHex ''0xbb''),
       o_feePayerSignatures = Some (RList [RList [RHex ''0x26'', RHex ''0x03'', RHex ''0x04'']]) \<rparr>"

section \<open>Properties of the key accessors\<close>

lemma nth_opt_in [simp]: "i < length xs \<Longrightarrow> nth_opt xs i = Some (xs ! i)"
  by (simp add: nth_opt_def)

lemma nth_opt_out [simp]: "\<not> i < length xs \<Longrightarrow> nth_opt xs i = None"
  by (simp add: nth_opt_def)

lemma getKeyByRole_cases:
  assumes "length (keys kr) = RoleLast" and "r < RoleLast"
  shows "getKeyByRole kr (Some r) =
     (if keys kr ! r \<noteq> [] \<or> r = RoleTransactionKey then Inr (keys kr ! r)
      else if keys kr ! RoleTransactionKey \<noteq> [] then Inr (keys kr ! RoleTransactionKey)
      else Inl (KeyDoesNotExist r))"
  using assms by (auto simp: getKeyByRole_def RoleLast_def RoleTransactionKey_def)


section \<open>Lemmas about the keystore codec\<close>

lemma hexValue_hexDigit_all: "\<forall>n<16. hexValue (hexDigit n) = Some n"
  unfolding hexDigit_def hexValue_def by (simp add: numeral_eq_Suc All_less_Suc)

lemma hexValue_hexDigit: "n < 16 \<Longrightarrow> hexValue (hexDigit n) = Some n"
  using hexValue_hexDigit_all by blast

lemma byte_split: "(of_nat (16 * (unat b div 16) + unat b mod 16) :: 8 word) = b"
  by simp

lemma hexToBytes_byteToHex: "hexToBytes (byteToHex b @ rest) = b # hexToBytes rest"
proof -
  have "unat b < 256" using unsigned_less [of b] by simp
  then have d: "unat b div 16 < 16" by simp
  have m: "unat b mod 16 < 16" by simp
  show ?thesis
    by (simp add: byteToHex_def hexValue_hexDigit [OF d] hexValue_hexDigit [OF m])
qed

lemma hexToBytes_bytesToHex: "hexToBytes (bytesToHex bs) = bs"
  by (induction bs) (simp_all add: bytesToHex_def hexToBytes_byteToHex)

lemma replace0x_prefix: "replace0x (CHR ''0'' # CHR ''x'' # s) = s"
  by simp

lemma lowerChar_idem: "lowerChar (lowerChar ch) = lowerChar ch"
  by (auto simp: lowerChar_def)

lemma toLowerCase_idem: "toLowerCase (toLowerCase s) = toLowerCase s"
  by (simp add: toLowerCase_def lowerChar_idem)

lemma canonicalKey_bytes:
  assumes "canonicalKey k"
  shows "''0x'' @ bytesToHex (hexToBytes (replace0x (privateKey k))) = privateKey k"
proof -
  from assms obtain s where s: "privateKey k = CHR ''0'' # CHR ''x'' # s"
    by (cases "privateKey k"; cases "tl (privateKey k)")
       (auto simp: canonicalKey_def startsWith_def)
  with assms show ?thesis by (simp add: canonicalKey_def)
qed

lemma normalizeKey_canonical:
  assumes "canonicalKey k"
  shows "normalizeKey k = k"
  using canonicalKey_bytes [OF assms]
  by (simp add: normalizeKey_def normalizedString_def keyBytes_def)

lemma normalizeKey_canonical_lists:
  assumes "list_all (list_all canonicalKey) kss"
  shows "map (map normalizeKey) kss = kss"
proof -
  have "map normalizeKey ks = ks" if "list_all canonicalKey ks" for ks
    using that by (induction ks) (simp_all add: normalizeKey_canonical)
  with assms show ?thesis
    by (induction kss) simp_all
qed

lemma keyBytes_normalizeKey: "keyBytes (normalizeKey k) = keyBytes k"
  by (simp add: keyBytes_def normalizeKey_def normalizedString_def hexToBytes_bytesToHex)

lemma keyBytes_normalizeKey_lists:
  "map (map keyBytes) (map (map normalizeKey) kss) = map (map keyBytes) kss"
proof -
  have "keyBytes \<circ> normalizeKey = keyBytes"
    by (rule ext) (simp add: keyBytes_normalizeKey)
  then show ?thesis by simp
qed

lemma deriveStoredKey_encrypt:
  assumes "encryptEntry P k password opts rng = Inr (c, rng')"
  shows "\<exists>dk h. deriveStoredKey P password c = Inr dk \<and>
           createCipheriv P (cipher c) (take 16 dk) (hexToBytes (cipherparams_iv c))
             (hexToBytes (replace0x (privateKey k))) = Some (hexToBytes (ciphertext c)) \<and>
           sha3 P (take 16 (drop 16 dk) @ hexToBytes (ciphertext c)) = Some h \<and>
           mac c = replace0x h"
proof -
  obtain saltb rng1 where s:
    "(case opt_salt opts of Some b \<Rightarrow> (b, rng) | None \<Rightarrow> randomBytes P 32 rng) = (saltb, rng1)"
    by (cases "case opt_salt opts of Some b \<Rightarrow> (b, rng) | None \<Rightarrow> randomBytes P 32 rng") blast
  obtain ivb rng2 where i:
    "(case opt_iv opts of Some b \<Rightarrow> (b, rng1) | None \<Rightarrow> randomBytes P 16 rng1) = (ivb, rng2)"
    by (cases "case opt_iv opts of Some b \<Rightarrow> (b, rng1) | None \<Rightarrow> randomBytes P 16 rng1") blast
  consider (pbkdf2) "orString (opt_kdf opts) ''scrypt'' = ''pbkdf2''"
    | (scrypt) "orString (opt_kdf opts) ''scrypt'' = ''scrypt''"
    | (other) "orString (opt_kdf opts) ''scrypt'' \<noteq> ''pbkdf2''"
        "orString (opt_kdf opts) ''scrypt'' \<noteq> ''scrypt''"
    by blast
  then show ?thesis
  proof cases
    case pbkdf2
    with assms show ?thesis
      by (auto simp add: encryptEntry_def deriveStoredKey_def s i Let_def hexToBytes_bytesToHex split: option.splits)
  next
    case scrypt
    with assms show ?thesis
      by (auto simp add: encryptEntry_def deriveStoredKey_def s i Let_def hexToBytes_bytesToHex split: option.splits)
  next
    case other
    with assms show ?thesis
      by (simp add: encryptEntry_def s i)
  qed
qed

lemma decryptEntry_encryptEntry:
  assumes "encryptEntry P k password opts rng = Inr (c, rng')"
    and "cipherInverse P"
  shows "fst (decryptEntry P password (Obj c) log) = Inr (normalizedString k)"
proof -
  from deriveStoredKey_encrypt [OF assms(1)] obtain dk h where
    d: "deriveStoredKey P password c = Inr dk"
    and e: "createCipheriv P (cipher c) (take 16 dk) (hexToBytes (cipherparams_iv c))
             (hexToBytes (replace0x (privateKey k))) = Some (hexToBytes (ciphertext c))"
    and h: "sha3 P (take 16 (drop 16 dk) @ hexToBytes (ciphertext c)) = Some h"
    and m: "mac c = replace0x h"
    by blast
  from e assms(2) have
    "createDecipheriv P (cipher c) (take 16 dk) (hexToBytes (cipherparams_iv c))
       (hexToBytes (ciphertext c)) = Some (hexToBytes (replace0x (privateKey k)))"
    by (simp add: cipherInverse_def)
  with d h m show ?thesis
    by (simp add: decryptEntry_def normalizedString_def keyBytes_def)
qed

lemma encryptLoop_rel:
  "encryptLoop P ks password opts acc rng = Inr (cs, rng') \<Longrightarrow>
   \<exists>new. cs = acc @ new \<and> list_all2 (encrypts P password opts) ks new"
proof (induction ks arbitrary: acc rng)
  case Nil
  then show ?case by simp
next
  case (Cons k ks)
  from Cons.prems obtain c r1 where
    e: "encryptEntry P k password opts rng = Inr (c, r1)"
    and l: "encryptLoop P ks password opts (acc @ [c]) r1 = Inr (cs, rng')"
    by (auto split: sum.splits)
  from Cons.IH [OF l] obtain new where
    n: "cs = (acc @ [c]) @ new" "list_all2 (encrypts P password opts) ks new"
    by blast
  from e have "encrypts P password opts k c"
    unfolding encrypts_def by blast
  with n have "cs = acc @ (c # new) \<and> list_all2 (encrypts P password opts) (k # ks) (c # new)"
    by simp
  then show ?case by blast
qed

lemma decryptLoop_rel:
  assumes "list_all2 (encrypts P password opts) ks new"
    and "cipherInverse P"
  shows "fst (decryptLoop P password (map Obj new) acc log) = Inr (acc @ map normalizedString ks)"
  using assms(1)
proof (induction ks new arbitrary: acc log rule: list_all2_induct)
  case Nil
  then show ?case by simp
next
  case (Cons k ks c new)
  from Cons.hyps(1) obtain r r' where "encryptEntry P k password opts r = Inr (c, r')"
    unfolding encrypts_def by blast
  then have "fst (decryptEntry P password (Obj c) log) = Inr (normalizedString k)"
    using assms(2) by (simp add: decryptEntry_encryptEntry)
  then obtain log' where d: "decryptEntry P password (Obj c) log = (Inr (normalizedString k), log')"
    by (cases "decryptEntry P password (Obj c) log") simp
  from Cons.IH [of "acc @ [normalizedString k]" log'] d show ?case by simp
qed

lemma decryptKey_encryptKey:
  assumes "encryptKey P (KeyList ks) password opts rng = Inr (cs, rng')"
    and "cipherInverse P"
  shows "length cs = length ks \<and>
    fst (decryptKey P (Some (Arr (map Obj cs))) password log) =
      Inr (if ks = [] then None else Some (map normalizedString ks))"
proof -
  from assms(1) have "encryptLoop P ks password opts [] rng = Inr (cs, rng')"
    by (simp add: encryptKey_def)
  from encryptLoop_rel [OF this] have r: "list_all2 (encrypts P password opts) ks cs"
    by simp
  then have len: "length cs = length ks"
    by (simp add: list_all2_lengthD)
  from decryptLoop_rel [OF r assms(2), of "[]" log]
  obtain log' where "decryptLoop P password (map Obj cs) [] log = (Inr (map normalizedString ks), log')"
    by (cases "decryptLoop P password (map Obj cs) [] log") simp
  with len show ?thesis
    by (auto simp: decryptKey_def)
qed

lemma newPrivateKey_valid:
  assumes "validKey U k"
  shows "newPrivateKey U (KString (normalizedString k)) = Inr (normalizeKey k)"
  using assms
  by (simp add: newPrivateKey_def validKey_def normalizeKey_def addHexPrefix_def startsWith_def
      normalizedString_def)

lemma pushKeys_strings:
  assumes "role < length ks0" and "list_all (validKey U) new"
  shows "pushKeys U ks0 role (map (KString \<circ> normalizedString) new) =
         Inr (ks0[role := ks0 ! role @ map normalizeKey new])"
  using assms
proof (induction new arbitrary: ks0)
  case Nil
  then show ?case by simp
next
  case (Cons k new)
  then have v: "validKey U k" and vs: "list_all (validKey U) new" by simp_all
  from Cons.prems(1) have len: "role < length (ks0[role := ks0 ! role @ [normalizeKey k]])" by simp
  from Cons.IH [OF len vs] Cons.prems(1) show ?case
    by (simp add: newPrivateKey_valid [OF v])
qed

lemma fillRoleKey_strings:
  assumes "role < RoleLast" and "length ks0 = RoleLast"
    and "length new \<le> MAXIMUM_KEY_NUM U" and "list_all (validKey U) new"
  shows "fillRoleKey U ks0 role (Some (KArray (map (KString \<circ> normalizedString) new))) =
         Inr (ks0[role := ks0 ! role @ map normalizeKey new])"
  using assms by (simp add: fillRoleKey_def pushKeys_strings)

lemma fillRoleKey_empty:
  assumes "role < RoleLast"
  shows "fillRoleKey U ks0 role (Some (KArray [])) = Inr ks0"
    and "fillRoleKey U ks0 role None = Inr ks0"
  using assms by (simp_all add: fillRoleKey_def)

lemma formatting_roleBased:
  assumes "length k0 \<le> MAXIMUM_KEY_NUM U" "list_all (validKey U) k0"
    and "length k1 \<le> MAXIMUM_KEY_NUM U" "list_all (validKey U) k1"
    and "length k2 \<le> MAXIMUM_KEY_NUM U" "list_all (validKey U) k2"
  shows "formattingForKeyInKeyring U
           (KArray [KArray (map (KString \<circ> normalizedString) k0),
                    KArray (map (KString \<circ> normalizedString) k1),
                    KArray (map (KString \<circ> normalizedString) k2)]) = Inr [map normalizeKey k0, map normalizeKey k1, map normalizeKey k2]"
proof -
  have u: "[0..<RoleLast] = [0, 1, 2]"
    by (simp add: RoleLast_def upt_rec)
  have f0: "fillRoleKey U [[], [], []] 0 (Some (KArray (map (KString \<circ> normalizedString) k0))) =
            Inr [map normalizeKey k0, [], []]"
    using fillRoleKey_strings [of 0 "[[], [], []]" k0 U] assms by (simp add: RoleLast_def)
  have f1: "fillRoleKey U [map normalizeKey k0, [], []] (Suc 0) (Some (KArray (map (KString \<circ> normalizedString) k1))) =
            Inr [map normalizeKey k0, map normalizeKey k1, []]"
    using fillRoleKey_strings [of "Suc 0" "[map normalizeKey k0, [], []]" k1 U] assms by (simp add: RoleLast_def)
  have f2: "fillRoleKey U [map normalizeKey k0, map normalizeKey k1, []] 2 (Some (KArray (map (KString \<circ> normalizedString) k2))) =
            Inr [map normalizeKey k0, map normalizeKey k1, map normalizeKey k2]"
    using fillRoleKey_strings [of 2 "[map normalizeKey k0, map normalizeKey k1, []]" k2 U] assms by (simp add: RoleLast_def)
  have g: "generateKeysFormat = [[], [], []]"
    by (simp add: generateKeysFormat_def RoleLast_def numeral_3_eq_3)
  have "fillRoles U
          (KArray [KArray (map (KString \<circ> normalizedString) k0),
                   KArray (map (KString \<circ> normalizedString) k1),
                   KArray (map (KString \<circ> normalizedString) k2)]) [0, 1, 2] [[], [], []] =
        Inr [map normalizeKey k0, map normalizeKey k1, map normalizeKey k2]"
    by (simp add: kindex_def f0 f1 f2)
  then show ?thesis
    unfolding formattingForKeyInKeyring_def u g
    by (simp add: isMultipleKeysFormat_def isRoleBasedKeysFormat_def RoleLast_def)
qed

lemma isArrayK_replicate: "list_all isArrayK (replicate m (KArray []))"
  by (induction m) simp_all

lemma formatting_flat:
  assumes "length k0 \<le> MAXIMUM_KEY_NUM U" "list_all (validKey U) k0"
    and "Suc m \<le> RoleLast"
  shows "formattingForKeyInKeyring U
           (KArray (KArray (map (KString \<circ> normalizedString) k0) # replicate m (KArray []))) =
         Inr [map normalizeKey k0, [], []]"
proof -
  have u: "[0..<RoleLast] = [0, 1, 2]"
    by (simp add: RoleLast_def upt_rec)
  have f0: "fillRoleKey U [[], [], []] 0 (Some (KArray (map (KString \<circ> normalizedString) k0))) =
            Inr [map normalizeKey k0, [], []]"
    using fillRoleKey_strings [of 0 "[[], [], []]" k0 U] assms by (simp add: RoleLast_def)
  have f: "fillRoleKey U ks0 i (nth_opt (x # replicate m (KArray [])) i) = Inr ks0"
    if "0 < i" "i < RoleLast" for i ks0 and x :: keyinput
    using that fillRoleKey_empty [of i U ks0]
    by (cases "i < Suc m") (simp_all add: nth_opt_def nth_Cons')
  have f1: "fillRoleKey U [map normalizeKey k0, [], []] (Suc 0)
      (nth_opt (KArray (map (KString \<circ> normalizedString) k0) # replicate m (KArray [])) (Suc 0)) =
      Inr [map normalizeKey k0, [], []]"
    by (rule f) (simp_all add: RoleLast_def)
  have f2: "fillRoleKey U [map normalizeKey k0, [], []] 2
      (nth_opt (KArray (map (KString \<circ> normalizedString) k0) # replicate m (KArray [])) 2) =
      Inr [map normalizeKey k0, [], []]"
    by (rule f) (simp_all add: RoleLast_def)
  have g: "generateKeysFormat = [[], [], []]"
    by (simp add: generateKeysFormat_def RoleLast_def numeral_3_eq_3)
  have "fillRoles U
          (KArray (KArray (map (KString \<circ> normalizedString) k0) # replicate m (KArray [])))
          [0, 1, 2] [[], [], []] = Inr [map normalizeKey k0, [], []]"
    by (simp add: kindex_def f0 f1 f2)
  moreover note isArrayK_replicate [of m]
  ultimately show ?thesis
    unfolding formattingForKeyInKeyring_def u g
    using assms(3)
    by (simp add: isMultipleKeysFormat_def isRoleBasedKeysFormat_def)
qed

lemma encryptRoles_three:
  assumes "encryptRoles P kr password opts [0, 1, 2] [] False rng = Inr (arr, rb, rng')"
    and "keys kr = [k0, k1, k2]"
  shows "\<exists>c0 c1 c2 r0 r1.
           encryptKey P (KeyList k0) password opts rng = Inr (c0, r0) \<and>
           encryptKey P (KeyList k1) password opts r0 = Inr (c1, r1) \<and>
           encryptKey P (KeyList k2) password opts r1 = Inr (c2, rng') \<and>
           arr = [Arr (map Obj c0), Arr (map Obj c1), Arr (map Obj c2)] \<and>
           rb = (k1 \<noteq> [] \<or> k2 \<noteq> [])"
proof -
  from assms obtain c0 r0 where
    e0: "encryptKey P (KeyList k0) password opts rng = Inr (c0, r0)"
    and l0: "encryptRoles P kr password opts [1, 2] [Arr (map Obj c0)] False r0 = Inr (arr, rb, rng')"
    by (auto simp: RoleTransactionKey_def split: sum.splits)
  from l0 assms(2) obtain c1 r1 where
    e1: "encryptKey P (KeyList k1) password opts r0 = Inr (c1, r1)"
    and l1: "encryptRoles P kr password opts [2] [Arr (map Obj c0), Arr (map Obj c1)] (k1 \<noteq> []) r1 =
        Inr (arr, rb, rng')"
    by (auto simp: RoleTransactionKey_def split: sum.splits)
  from l1 assms(2) obtain c2 where
    e2: "encryptKey P (KeyList k2) password opts r1 = Inr (c2, rng')"
    and a: "arr = [Arr (map Obj c0), Arr (map Obj c1), Arr (map Obj c2)]"
    and b: "rb = (k1 \<noteq> [] \<or> k2 \<noteq> [])"
    by (auto simp: RoleTransactionKey_def split: sum.splits)
  from e0 e1 e2 a b show ?thesis by blast
qed

lemma formatEncrypted_4:
  assumes "formatEncrypted P 4 addr j opts rng = Inr (ks, rng')"
  shows "version ks = Some 4 \<and> ks_address ks = toLowerCase addr \<and> crypto ks = None \<and> keyring ks = j"
  using assms by (auto simp: formatEncrypted_def Let_def split: prod.splits)

lemma cipherInverse_example: "cipherInverse example_prims"
  by (auto simp: cipherInverse_def example_prims_def o_def split: if_splits)

section \<open>Claims about the key accessors\<close>

text \<open>
  C3 (as the claim states it, refuted): reading a role whose list and the list of
  \<open>RoleTransactionKey\<close> are both empty always fails, in particular reading an empty
  \<open>RoleTransactionKey\<close>.  The guard \<^verbatim>\<open>role > KEY_ROLE.RoleTransactionKey\<close> keeps role 0 out
  of the failing branch: the empty list itself is returned.
\<close>

theorem getKeyByRole_empty_TransactionKey_counterexample:
  "getKeyByRole \<lparr> address = ''0xaa'', keys = [[], [], []] \<rparr> (Some RoleTransactionKey) = Inr []"
  by (simp add: getKeyByRole_def RoleTransactionKey_def)

text \<open>
  C3 (amended): for a keyring with its three role lists and a role \<open>r\<close> of the three,
  \<open>getKeyByRole\<close> fails on an undefined role; it returns the list of \<open>r\<close> when that list
  is non-empty or \<open>r\<close> is \<open>RoleTransactionKey\<close> (whose list is returned even when empty);
  for another role with an empty list it returns the non-empty list of
  \<open>RoleTransactionKey\<close>, and fails when that list is empty too.
\<close>

theorem getKeyByRole_fallback:
  assumes "length (keys kr) = RoleLast" and "r < RoleLast"
  shows "getKeyByRole kr None = Inl RoleUndefined \<and>
     getKeyByRole kr (Some r) =
       (if keys kr ! r \<noteq> [] \<or> r = RoleTransactionKey then Inr (keys kr ! r)
        else if keys kr ! RoleTransactionKey \<noteq> [] then Inr (keys kr ! RoleTransactionKey)
        else Inl (KeyDoesNotExist r))"
proof
  show "getKeyByRole kr None = Inl RoleUndefined"
    by (simp add: getKeyByRole_def)
  show "getKeyByRole kr (Some r) =
       (if keys kr ! r \<noteq> [] \<or> r = RoleTransactionKey then Inr (keys kr ! r)
        else if keys kr ! RoleTransactionKey \<noteq> [] then Inr (keys kr ! RoleTransactionKey)
        else Inl (KeyDoesNotExist r))"
    using assms by (rule getKeyByRole_cases)
qed

theorem getKeyByRole_fallback_witness:
  "length (keys example_keyring) = RoleLast \<and> RoleAccountUpdateKey < RoleLast \<and>
   getKeyByRole example_keyring None = Inl RoleUndefined \<and>
   getKeyByRole example_keyring (Some RoleAccountUpdateKey) =
     Inr [PrivateKey ''0xaa01'', PrivateKey ''0xbb02'']"
  using getKeyByRole_fallback [of example_keyring RoleAccountUpdateKey]
  by (simp add: example_keyring_def RoleLast_def RoleAccountUpdateKey_def RoleTransactionKey_def)

text \<open>
  C4: with a valid digest, a defined chain id and a defined role whose key list resolves
  (by \<open>getKeyByRole\<close>, fallback included) to \<open>ks\<close>, \<open>signWithKey\<close> fails for every index
  below 0 or not below the length of \<open>ks\<close>, and for an index in range it is the result of
  \<open>sign\<close> of the key of \<open>ks\<close> at that index on the digest and the chain id (as \<open>toHex\<close>
  normalises it); an index left out is index 0.  On a role of its own empty list, with
  \<open>RoleTransactionKey\<close> non-empty, the key is the one of \<open>RoleTransactionKey\<close> at the index.
\<close>

theorem signWithKey_index:
  assumes "isValidHashStrict U h" and "getKeyByRole kr (Some r) = Inr ks"
  shows "(i < 0 \<longrightarrow> signWithKey U kr h (Some cid) (Some r) (IndexNumber i) = Inl IndexNegative) \<and>
     (int (length ks) \<le> i \<longrightarrow> isl (signWithKey U kr h (Some cid) (Some r) (IndexNumber i))) \<and>
     (0 \<le> i \<and> i < int (length ks) \<longrightarrow>
        signWithKey U kr h (Some cid) (Some r) (IndexNumber i) = sign U (ks ! nat i) h (toHex U cid)) \<and>
     signWithKey U kr h (Some cid) (Some r) IndexUndefined =
       signWithKey U kr h (Some cid) (Some r) (IndexNumber 0) \<and>
     (length (keys kr) = RoleLast \<and> r < RoleLast \<and> keys kr ! r = [] \<and>
      keys kr ! RoleTransactionKey \<noteq> [] \<and> 0 \<le> i \<and> i < int (length (keys kr ! RoleTransactionKey)) \<longrightarrow>
        signWithKey U kr h (Some cid) (Some r) (IndexNumber i) =
          sign U (keys kr ! RoleTransactionKey ! nat i) h (toHex U cid))"
proof -
  have neg: "i < 0 \<longrightarrow> signWithKey U kr h (Some cid) (Some r) (IndexNumber i) = Inl IndexNegative"
    using assms by (simp add: signWithKey_def)
  have big: "int (length ks) \<le> i \<longrightarrow> isl (signWithKey U kr h (Some cid) (Some r) (IndexNumber i))"
    using assms by (simp add: signWithKey_def)
  have ok: "0 \<le> i \<and> i < int (length ks) \<longrightarrow>
        signWithKey U kr h (Some cid) (Some r) (IndexNumber i) = sign U (ks ! nat i) h (toHex U cid)"
    using assms by (simp add: signWithKey_def)
  have dflt: "signWithKey U kr h (Some cid) (Some r) IndexUndefined =
       signWithKey U kr h (Some cid) (Some r) (IndexNumber 0)"
    using assms by (simp add: signWithKey_def)
  have fb: "length (keys kr) = RoleLast \<and> r < RoleLast \<and> keys kr ! r = [] \<and>
      keys kr ! RoleTransactionKey \<noteq> [] \<and> 0 \<le> i \<and> i < int (length (keys kr ! RoleTransactionKey)) \<longrightarrow>
        signWithKey U kr h (Some cid) (Some r) (IndexNumber i) =
          sign U (keys kr ! RoleTransactionKey ! nat i) h (toHex U cid)"
  proof
    assume a: "length (keys kr) = RoleLast \<and> r < RoleLast \<and> keys kr ! r = [] \<and>
      keys kr ! RoleTransactionKey \<noteq> [] \<and> 0 \<le> i \<and> i < int (length (keys kr ! RoleTransactionKey))"
    then have "getKeyByRole kr (Some r) = Inr (keys kr ! RoleTransactionKey)"
      using getKeyByRole_cases [of kr r] by auto
    with assms(2) have "ks = keys kr ! RoleTransactionKey" by simp
    with a ok show "signWithKey U kr h (Some cid) (Some r) (IndexNumber i) =
          sign U (keys kr ! RoleTransactionKey ! nat i) h (toHex U cid)" by simp
  qed
  from neg big ok dflt fb show ?thesis by blast
qed

theorem signWithKey_index_witness:
  "isValidHashStrict example_utils ''0xh'' \<and>
   getKeyByRole example_keyring (Some RoleAccountUpdateKey) =
     Inr [PrivateKey ''0xaa01'', PrivateKey ''0xbb02''] \<and>
   keys example_keyring ! RoleAccountUpdateKey = [] \<and>
   signWithKey example_utils example_keyring ''0xh'' (Some (JNumber 1)) (Some RoleAccountUpdateKey)
     (IndexNumber 1) = Inr [''0x1'', ''0xbb02'', ''0xh''] \<and>
   signWithKey example_utils example_keyring ''0xh'' (Some (JNumber 1)) (Some RoleAccountUpdateKey)
     (IndexNumber 2) = Inl IndexTooLarge"
proof -
  have v: "isValidHashStrict example_utils ''0xh''"
    by (simp add: example_utils_def)
  have g: "getKeyByRole example_keyring (Some RoleAccountUpdateKey) =
     Inr [PrivateKey ''0xaa01'', PrivateKey ''0xbb02'']"
    by (simp add: getKeyByRole_def example_keyring_def RoleAccountUpdateKey_def
        RoleTransactionKey_def nth_opt_def)
  have e: "keys example_keyring ! RoleAccountUpdateKey = []"
    by (simp add: example_keyring_def RoleAccountUpdateKey_def)
  have s1: "signWithKey example_utils example_keyring ''0xh'' (Some (JNumber 1))
      (Some RoleAccountUpdateKey) (IndexNumber 1) = Inr [''0x1'', ''0xbb02'', ''0xh'']"
    using signWithKey_index [OF v g, of 1 "JNumber 1"]
    by (simp add: example_utils_def)
  have s2: "signWithKey example_utils example_keyring ''0xh'' (Some (JNumber 1))
      (Some RoleAccountUpdateKey) (IndexNumber 2) = Inl IndexTooLarge"
    using v g by (simp add: signWithKey_def)
  from v g e s1 s2 show ?thesis by blast
qed

text \<open>
  C5 (the code at the failing inputs): a keyring with one key in \<open>RoleTransactionKey\<close>
  whose derived address is the keyring's address, and one key in
  \<open>RoleAccountUpdateKey\<close>, is reported as not decoupled; with \<open>RoleTransactionKey\<close> empty
  and one key in another role the call ends in a TypeError.
\<close>

theorem isDecoupled_ignores_other_roles:
  "isDecoupled U \<lparr> address = getDerivedAddress U k1, keys = [[k1], [k2], []] \<rparr> = Inr False \<and>
   isDecoupled U \<lparr> address = a, keys = [[], [k2], []] \<rparr> = Inl TypeError"
  by (simp add: isDecoupled_def nth_opt_def)

section \<open>Claims about the keystore codec\<close>

text \<open>
  C1: in a round of \<open>decryptKey\<close> on a crypto object whose key derivation (by the stored
  \<open>kdf\<close> and \<open>kdfparams\<close>) gives \<open>derivedKey\<close>, when the hash of
  \<open>derivedKey[16:32]\<close> followed by the cipher text differs from the stored \<open>mac\<close>, the
  round fails with the wrong-password error and the event log is unchanged: no decipher
  is constructed.  So do the loop from that round on (whatever was decrypted before),
  \<open>decryptKey\<close> on an array that starts with the object, and \<open>Keyring.decrypt\<close> on a
  version 3 keystore with that object.
\<close>

theorem decryptKey_mac_mismatch:
  assumes "deriveStoredKey P password encrypted = Inr derivedKey"
    and "sha3 P (take 16 (drop 16 derivedKey) @ hexToBytes (ciphertext encrypted)) = Some h"
    and "replace0x h \<noteq> mac encrypted"
  shows "decryptEntry P password (Obj encrypted) log = (Inl MacMismatch, log) \<and>
    decryptLoop P password (Obj encrypted # rest) decryptedArray log = (Inl MacMismatch, log) \<and>
    decryptKey P (Some (Arr (Obj encrypted # rest))) password log = (Inl MacMismatch, log) \<and>
    decrypt U P \<lparr> version = Some 3, ks_id = i, ks_address = a, crypto = Some (Obj encrypted),
                   keyring = None \<rparr> password = (Inl MacMismatch, [])"
proof -
  have e: "decryptEntry P password (Obj encrypted) l = (Inl MacMismatch, l)" for l
    using assms by (simp add: decryptEntry_def)
  then have k: "decryptKey P (Some (Arr (Obj encrypted # rest'))) password l = (Inl MacMismatch, l)"
    for l rest'
    by (simp add: decryptKey_def)
  have "decrypt U P \<lparr> version = Some 3, ks_id = i, ks_address = a, crypto = Some (Obj encrypted),
                   keyring = None \<rparr> password = (Inl MacMismatch, [])"
    by (simp add: decrypt_def jindex_def decryptFlat_def k)
  with e k show ?thesis by simp
qed

theorem decryptKey_mac_mismatch_witness:
  "deriveStoredKey example_prims ''pwd'' example_crypto = Inr (replicate 17 3) \<and>
   sha3 example_prims (take 16 (drop 16 (replicate 17 3)) @ hexToBytes (ciphertext example_crypto)) =
     Some ''0x03ab'' \<and>
   replace0x ''0x03ab'' \<noteq> mac example_crypto \<and>
   decryptKey example_prims (Some (Arr [Obj example_crypto])) ''pwd'' [] = (Inl MacMismatch, []) \<and>
   decrypt example_utils example_prims
     \<lparr> version = Some 3, ks_id = ''07'', ks_address = ''0xaa'', crypto = Some (Obj example_crypto),
       keyring = None \<rparr> ''pwd'' = (Inl MacMismatch, [])"
proof -
  have d: "deriveStoredKey example_prims ''pwd'' example_crypto = Inr (replicate 17 3)"
    by (simp add: deriveStoredKey_def example_prims_def example_crypto_def passwordBytes_def)
  have h: "sha3 example_prims
      (take 16 (drop 16 (replicate 17 3)) @ hexToBytes (ciphertext example_crypto)) = Some ''0x03ab''"
    by (simp add: example_prims_def example_crypto_def hexValue_def bytesToHex_def byteToHex_def
        hexDigit_def)
  have m: "replace0x ''0x03ab'' \<noteq> mac example_crypto"
    by (simp add: example_crypto_def)
  from decryptKey_mac_mismatch [OF d h m, of "[]" "[]" "[]" example_utils "''07''" "''0xaa''"] d h m
  show ?thesis by simp
qed

subsection \<open>The round trip through a keystore\<close>

lemma decrypt_encrypt_normalised:
  assumes wf: "wellFormedKeyring U kr" and ne: "\<not> isEmptyKey (keys kr)"
    and ci: "cipherInverse P"
    and enc: "encrypt P kr password opts rng = Inr (ks, rng')"
  shows "fst (decrypt U P ks password) =
         Inr (kr \<lparr> keys := map (map normalizeKey) (keys kr) \<rparr>)"
proof -
  from wf have len: "length (keys kr) = 3"
    by (simp add: wellFormedKeyring_def RoleLast_def)
  then obtain k0 k1 k2 where ks3: "keys kr = [k0, k1, k2]"
    by (auto simp: numeral_3_eq_3 length_Suc_conv)
  from wf ks3 have
    m0: "length k0 \<le> MAXIMUM_KEY_NUM U" and v0: "list_all (validKey U) k0" and
    m1: "length k1 \<le> MAXIMUM_KEY_NUM U" and v1: "list_all (validKey U) k1" and
    m2: "length k2 \<le> MAXIMUM_KEY_NUM U" and v2: "list_all (validKey U) k2"
    by (simp_all add: wellFormedKeyring_def)
  from wf have adr: "isAddress U (address kr)" "toLowerCase (addHexPrefix (address kr)) = address kr"
    by (simp_all add: wellFormedKeyring_def)
  then have low: "toLowerCase (address kr) = address kr"
    by (metis toLowerCase_idem)
  have u: "[RoleTransactionKey..<RoleLast] = [0, 1, 2]"
    by (simp add: RoleLast_def RoleTransactionKey_def upt_rec)
  from enc obtain arr rb r2 where
    roles: "encryptRoles P kr password opts [0, 1, 2] [] False rng = Inr (arr, rb, r2)"
    and fmt: "formatEncrypted P 4 (address kr)
                (if \<not> rb then nth_opt arr 0 else Some (Arr arr)) opts r2 = Inr (ks, rng')"
    unfolding encrypt_def u by (auto split: sum.splits)
  from encryptRoles_three [OF roles ks3] obtain e0 e1 e2 r0 r1 where
    e0: "encryptKey P (KeyList k0) password opts rng = Inr (e0, r0)" and
    e1: "encryptKey P (KeyList k1) password opts r0 = Inr (e1, r1)" and
    e2: "encryptKey P (KeyList k2) password opts r1 = Inr (e2, r2)" and
    arr: "arr = [Arr (map Obj e0), Arr (map Obj e1), Arr (map Obj e2)]" and
    rb: "rb = (k1 \<noteq> [] \<or> k2 \<noteq> [])"
    by blast
  note f4 = formatEncrypted_4 [OF fmt]
  from f4 have hd: "version ks = Some 4" "ks_address ks = toLowerCase (address kr)" "crypto ks = None"
    by simp_all
  have d0: "length e0 = length k0 \<and> fst (decryptKey P (Some (Arr (map Obj e0))) password log) =
      Inr (if k0 = [] then None else Some (map normalizedString k0))" for log
    by (rule decryptKey_encryptKey [OF e0 ci])
  have d1: "fst (decryptKey P (Some (Arr (map Obj e1))) password log) =
      Inr (if k1 = [] then None else Some (map normalizedString k1))" for log
    using decryptKey_encryptKey [OF e1 ci] by blast
  have d2: "fst (decryptKey P (Some (Arr (map Obj e2))) password log) =
      Inr (if k2 = [] then None else Some (map normalizedString k2))" for log
    using decryptKey_encryptKey [OF e2 ci] by blast
  have rk: "roleKeys (if k = [] then None else Some (map normalizedString k)) =
      KArray (map (KString \<circ> normalizedString) k)" for k
    by (simp add: roleKeys_def)
  let ?kr' = "kr \<lparr> keys := map (map normalizeKey) (keys kr) \<rparr>"
  have krec: "\<lparr> address = address kr,
                keys = [map normalizeKey k0, map normalizeKey k1, map normalizeKey k2] \<rparr> = ?kr'"
    using ks3 by simp
  show ?thesis
  proof (cases rb)
    case True
    with f4 arr have kf: "keyring ks = Some (Arr [Arr (map Obj e0), Arr (map Obj e1), Arr (map Obj e2)])"
      by simp
    obtain l1 where x0: "decryptKey P (Some (Arr (map Obj e0))) password [] =
        (Inr (if k0 = [] then None else Some (map normalizedString k0)), l1)"
      using d0 [of "[]"] by (cases "decryptKey P (Some (Arr (map Obj e0))) password []") simp
    obtain l2 where x1: "decryptKey P (Some (Arr (map Obj e1))) password l1 =
        (Inr (if k1 = [] then None else Some (map normalizedString k1)), l2)"
      using d1 [of l1] by (cases "decryptKey P (Some (Arr (map Obj e1))) password l1") simp
    obtain l3 where x2: "decryptKey P (Some (Arr (map Obj e2))) password l2 =
        (Inr (if k2 = [] then None else Some (map normalizedString k2)), l3)"
      using d2 [of l2] by (cases "decryptKey P (Some (Arr (map Obj e2))) password l2") simp
    have "decryptRoleBased U P (Arr [Arr (map Obj e0), Arr (map Obj e1), Arr (map Obj e2)])
            (toLowerCase (address kr)) password [] = (Inr ?kr', l3)"
      unfolding decryptRoleBased_def
      by (simp add: jindex_def RoleTransactionKey_def RoleAccountUpdateKey_def RoleFeePayerKey_def
          x0 x1 x2 rk createWithRoleBasedKey_def isRoleBasedKeysFormat_def RoleLast_def
          newKeyring_def low adr krec
          formatting_roleBased [OF m0 v0 m1 v1 m2 v2] del: if_split)
    with hd kf show ?thesis
      by (simp add: decrypt_def jindex_def)
  next
    case False
    with rb have emp: "k1 = []" "k2 = []" by simp_all
    with ne ks3 have k0ne: "k0 \<noteq> []"
      by (simp add: isEmptyKey_def)
    from False f4 arr have kf: "keyring ks = Some (Arr (map Obj e0))"
      by simp
    from d0 k0ne have e0ne: "e0 \<noteq> []" by auto
    then obtain a0 rest where e0c: "e0 = a0 # rest" by (cases e0) simp_all
    obtain l1 where x0: "decryptKey P (Some (Arr (map Obj e0))) password [] =
        (Inr (Some (map normalizedString k0)), l1)"
      using d0 [of "[]"] k0ne by (cases "decryptKey P (Some (Arr (map Obj e0))) password []") simp
    have krec': "\<lparr> address = address kr, keys = [map normalizeKey k0, [], []] \<rparr> = ?kr'"
      using ks3 emp by simp
    from k0ne have sm: "Suc (RoleLast - length k0) \<le> RoleLast"
      by (cases k0) (simp_all add: RoleLast_def)
    have "decryptFlat U P (Arr (map Obj e0)) (toLowerCase (address kr)) password [] = (Inr ?kr', l1)"
      unfolding decryptFlat_def
      using sm
      by (simp add: x0 createWithRoleBasedKey_def isRoleBasedKeysFormat_def Let_def
          newKeyring_def low adr krec' isArrayK_replicate
          formatting_flat [OF m0 v0 sm])
    with hd kf e0c show ?thesis
      by (simp add: decrypt_def jindex_def)
  qed
qed

text \<open>
  C2 (as the claim states it, refuted): the keyring decrypted from the keystore of a
  keyring is that keyring.  The constructor keeps the string of a key as it is given, here
  with upper-case digits; \<^verbatim>\<open>encryptKey\<close> ciphers the bytes of the key and \<^verbatim>\<open>decryptKey\<close>
  writes them back with \<^verbatim>\<open>toString('hex')\<close>, in lower-case digits.  The keyring that
  \<open>Keyring.decrypt\<close> returns has the same address and the same bytes in its key, but
  the string of the key is not the one of the original.
\<close>

theorem decrypt_encrypt_mixed_case_counterexample:
  "newKeyring example_utils ''0xa94f5374fce5edbc8e2a8697c15331677e6ebf0b''
     (KString ''0x45A915E4D060149EB4365960E6A7A45F334393093061116B197E3240065FF2D8'') =
     Inr mixedCase_keyring \<and>
   \<not> isl (encrypt example_prims mixedCase_keyring ''pw'' example_options 0) \<and>
   fst (decrypt example_utils example_prims
          (fst (projr (encrypt example_prims mixedCase_keyring ''pw'' example_options 0))) ''pw'') =
     Inr \<lparr> address = ''0xa94f5374fce5edbc8e2a8697c15331677e6ebf0b'',
           keys = [[PrivateKey ''0x45a915e4d060149eb4365960e6a7a45f334393093061116b197e3240065ff2d8''],
                   [], []] \<rparr> \<and>
   \<lparr> address = ''0xa94f5374fce5edbc8e2a8697c15331677e6ebf0b'',
     keys = [[PrivateKey ''0x45a915e4d060149eb4365960e6a7a45f334393093061116b197e3240065ff2d8''],
             [], []] \<rparr> \<noteq> mixedCase_keyring"
proof -
  have wf: "wellFormedKeyring example_utils mixedCase_keyring"
    by (simp add: wellFormedKeyring_def example_utils_def mixedCase_keyring_def validKey_def
        startsWith_def addHexPrefix_def toLowerCase_def lowerChar_def RoleLast_def)
  have ne: "\<not> isEmptyKey (keys mixedCase_keyring)"
    by (simp add: isEmptyKey_def mixedCase_keyring_def)
  have "\<exists>ks r. encrypt example_prims mixedCase_keyring ''pw'' example_options 0 = Inr (ks, r)"
    by (simp add: encrypt_def encryptKey_def encryptEntry_def formatEncrypted_def
        example_prims_def example_options_def mixedCase_keyring_def orString_def orNumber_def
        bytesToHex_def byteToHex_def hexDigit_def hexValue_def passwordBytes_def
        RoleTransactionKey_def RoleLast_def nth_opt_def toLowerCase_def lowerChar_def upt_rec)
  then obtain ks r where
    e: "encrypt example_prims mixedCase_keyring ''pw'' example_options 0 = Inr (ks, r)"
    by blast
  have n: "map (map normalizeKey) (keys mixedCase_keyring) =
      [[PrivateKey ''0x45a915e4d060149eb4365960e6a7a45f334393093061116b197e3240065ff2d8''], [], []]"
    by (simp add: mixedCase_keyring_def normalizeKey_def normalizedString_def keyBytes_def
        bytesToHex_def byteToHex_def hexDigit_def hexValue_def)
  from decrypt_encrypt_normalised [OF wf ne cipherInverse_example e] n
  have d: "fst (decrypt example_utils example_prims ks ''pw'') =
      Inr \<lparr> address = ''0xa94f5374fce5edbc8e2a8697c15331677e6ebf0b'',
            keys = [[PrivateKey ''0x45a915e4d060149eb4365960e6a7a45f334393093061116b197e3240065ff2d8''],
                    [], []] \<rparr>"
    by (simp add: mixedCase_keyring_def)
  have c: "newKeyring example_utils ''0xa94f5374fce5edbc8e2a8697c15331677e6ebf0b''
      (KString ''0x45A915E4D060149EB4365960E6A7A45F334393093061116B197E3240065FF2D8'') =
      Inr mixedCase_keyring"
    by (simp add: newKeyring_def formattingForKeyInKeyring_def generateKeysFormat_def
        fillRoleKey_def kindex_def newPrivateKey_def example_utils_def mixedCase_keyring_def
        RoleLast_def upt_rec numeral_3_eq_3 nth_opt_def addHexPrefix_def startsWith_def
        toLowerCase_def lowerChar_def)
  have i: "\<lparr> address = ''0xa94f5374fce5edbc8e2a8697c15331677e6ebf0b'',
      keys = [[PrivateKey ''0x45a915e4d060149eb4365960e6a7a45f334393093061116b197e3240065ff2d8''],
              [], []] \<rparr> \<noteq> mixedCase_keyring"
    by (simp add: mixedCase_keyring_def)
  from e d c i show ?thesis by simp
qed

text \<open>
  C2 (amended): for a keyring of the data model that holds at least one key (simple,
  multiple keys in the first role, or role-based), a password, options and a state of the
  random source, if \<open>encrypt\<close> returns a keystore then \<open>Keyring.decrypt\<close> of that
  keystore with the same password returns a keyring with the same address and the same
  three key lists in the same order, each key with the bytes of the original key and its
  string written as \<^verbatim>\<open>0x\<close> and lower-case digits.  It is the original keyring when the
  strings of its keys are written that way.  The cipher is only assumed to be inverted by
  its decipher; the key derivation and the cipher name are the ones the options select.
\<close>

theorem decrypt_encrypt_roundtrip:
  assumes wf: "wellFormedKeyring U kr" and ne: "\<not> isEmptyKey (keys kr)"
    and ci: "cipherInverse P"
    and enc: "encrypt P kr password opts rng = Inr (ks, rng')"
  shows "fst (decrypt U P ks password) =
           Inr (kr \<lparr> keys := map (map normalizeKey) (keys kr) \<rparr>) \<and>
         map (map keyBytes) (map (map normalizeKey) (keys kr)) = map (map keyBytes) (keys kr) \<and>
         (list_all (list_all canonicalKey) (keys kr) \<longrightarrow>
            fst (decrypt U P ks password) = Inr kr)"
proof -
  have a: "fst (decrypt U P ks password) =
      Inr (kr \<lparr> keys := map (map normalizeKey) (keys kr) \<rparr>)"
    by (rule decrypt_encrypt_normalised [OF wf ne ci enc])
  have b: "map (map keyBytes) (map (map normalizeKey) (keys kr)) = map (map keyBytes) (keys kr)"
    by (rule keyBytes_normalizeKey_lists)
  have c: "fst (decrypt U P ks password) = Inr kr"
    if "list_all (list_all canonicalKey) (keys kr)"
    using a normalizeKey_canonical_lists [OF that] by simp
  from a b c show ?thesis by blast
qed

theorem decrypt_encrypt_roundtrip_witness:
  "wellFormedKeyring example_utils example_keyring \<and> \<not> isEmptyKey (keys example_keyring) \<and>
   cipherInverse example_prims \<and>
   list_all (list_all canonicalKey) (keys example_keyring) \<and>
   (\<exists>ks r. encrypt example_prims example_keyring ''pw'' example_options 0 = Inr (ks, r) \<and>
      fst (decrypt example_utils example_prims ks ''pw'') = Inr example_keyring)"
proof -
  have wf: "wellFormedKeyring example_utils example_keyring"
    by (simp add: wellFormedKeyring_def example_utils_def example_keyring_def validKey_def
        startsWith_def addHexPrefix_def toLowerCase_def lowerChar_def RoleLast_def)
  have ne: "\<not> isEmptyKey (keys example_keyring)"
    by (simp add: isEmptyKey_def example_keyring_def)
  have ca: "list_all (list_all canonicalKey) (keys example_keyring)"
    by (simp add: example_keyring_def canonicalKey_def startsWith_def
        bytesToHex_def byteToHex_def hexValue_def hexDigit_def)
  have "\<exists>ks r. encrypt example_prims example_keyring ''pw'' example_options 0 = Inr (ks, r)"
    by (simp add: encrypt_def encryptKey_def encryptEntry_def formatEncrypted_def
        example_prims_def example_options_def example_keyring_def orString_def orNumber_def
        bytesToHex_def byteToHex_def hexDigit_def hexValue_def passwordBytes_def
        RoleTransactionKey_def RoleLast_def nth_opt_def toLowerCase_def lowerChar_def upt_rec)
  then obtain ks r where e: "encrypt example_prims example_keyring ''pw'' example_options 0 = Inr (ks, r)"
    by blast
  from decrypt_encrypt_roundtrip [OF wf ne cipherInverse_example e] wf ne ca cipherInverse_example e
  show ?thesis by blast
qed

text \<open>
  The keyring without any key is outside the round trip: \<open>encrypt\<close> returns a keystore
  with an empty \<open>keyring\<close> array, on which \<open>decryptKey\<close> returns \<^verbatim>\<open>undefined\<close>;
  \<open>Keyring.decrypt\<close> wraps it as \<^verbatim>\<open>[undefined]\<close> and the construction of a private key
  from it fails.
\<close>

lemma encrypt_empty_keyring_not_restored:
  "encrypt example_prims \<lparr> address = ''0xaa'', keys = [[], [], []] \<rparr> ''pw'' example_options 0 =
     Inr (\<lparr> version = Some 4, ks_id = ''07'', ks_address = ''0xaa'', crypto = None,
            keyring = Some (Arr []) \<rparr>, 0) \<and>
   decrypt example_utils example_prims
     \<lparr> version = Some 4, ks_id = ''07'', ks_address = ''0xaa'', crypto = None,
       keyring = Some (Arr []) \<rparr> ''pw'' = (Inl InvalidPrivateKey, [])"
proof
  show "encrypt example_prims \<lparr> address = ''0xaa'', keys = [[], [], []] \<rparr> ''pw'' example_options 0 =
     Inr (\<lparr> version = Some 4, ks_id = ''07'', ks_address = ''0xaa'', crypto = None,
            keyring = Some (Arr []) \<rparr>, 0)"
    by (simp add: encrypt_def encryptKey_def formatEncrypted_def example_prims_def
        example_options_def RoleTransactionKey_def RoleLast_def nth_opt_def upt_rec
        toLowerCase_def lowerChar_def bytesToHex_def byteToHex_def hexDigit_def)
  show "decrypt example_utils example_prims
     \<lparr> version = Some 4, ks_id = ''07'', ks_address = ''0xaa'', crypto = None,
       keyring = Some (Arr []) \<rparr> ''pw'' = (Inl InvalidPrivateKey, [])"
    by (simp add: decrypt_def jindex_def decryptFlat_def decryptKey_def
        createWithRoleBasedKey_def isRoleBasedKeysFormat_def isMultipleKeysFormat_def
        newKeyring_def formattingForKeyInKeyring_def generateKeysFormat_def fillRoleKey_def
        kindex_def newPrivateKey_def example_utils_def RoleLast_def upt_rec numeral_3_eq_3
        nth_opt_def)
qed

subsection \<open>Version 3 keystores\<close>

lemma otherRolesEmpty_two:
  assumes "keys kr = [k0, k1, k2]"
  shows "otherRolesEmpty kr [RoleAccountUpdateKey..<RoleLast] =
         (if k1 \<noteq> [] \<or> k2 \<noteq> [] then Inl NotAvailableV3 else Inr ())"
proof -
  have u: "[RoleAccountUpdateKey..<RoleLast] = [1, 2]"
    by (simp add: RoleAccountUpdateKey_def RoleLast_def upt_rec)
  show ?thesis unfolding u using assms by simp
qed

lemma formatEncrypted_3:
  assumes "formatEncrypted P 3 addr j opts rng = Inr (ks, rng')"
  shows "version ks = Some 3 \<and> ks_address ks = toLowerCase addr \<and> crypto ks = j \<and> keyring ks = None"
  using assms by (auto simp: formatEncrypted_def Let_def split: prod.splits)

text \<open>
  C8 (as the claim states it, refuted): a keyring with no key at all makes \<open>encryptV3\<close>
  fail.  \<^verbatim>\<open>this._keys[0][0]\<close> is then \<^verbatim>\<open>undefined\<close>, the guard \<^verbatim>\<open>if (!privateKey)\<close> of
  \<open>encryptKey\<close> returns the empty array for it, and a version 3 record with an empty
  \<open>crypto\<close> array is returned.
\<close>

theorem encryptV3_empty_keyring_counterexample:
  "encryptV3 example_prims \<lparr> address = ''0xaa'', keys = [[], [], []] \<rparr> ''pw'' (Some example_options) 0 =
     Inr (\<lparr> version = Some 3, ks_id = ''07'', ks_address = ''0xaa'', crypto = Some (Arr []),
            keyring = None \<rparr>, 0)"
  by (simp add: encryptV3_def encryptKey_def formatEncrypted_def example_prims_def
      example_options_def RoleTransactionKey_def RoleAccountUpdateKey_def RoleLast_def nth_opt_def
      upt_rec toLowerCase_def lowerChar_def bytesToHex_def byteToHex_def hexDigit_def)

text \<open>
  C8 (amended): for a keyring with its three role lists, \<open>encryptV3\<close> fails with the
  error that directs to \<^verbatim>\<open>keyring.encrypt\<close> whenever \<open>RoleTransactionKey\<close> holds more than
  one key or another role holds a key; so it returns a keystore (of version 3, without a
  \<open>keyring\<close> field) only when \<open>RoleTransactionKey\<close> holds at most one key and the other two
  roles are empty.
\<close>

theorem encryptV3_shape:
  assumes "length (keys kr) = RoleLast"
  shows "(length (keys kr ! RoleTransactionKey) > 1 \<or> keys kr ! RoleAccountUpdateKey \<noteq> [] \<or>
          keys kr ! RoleFeePayerKey \<noteq> [] \<longrightarrow>
            encryptV3 P kr password opts rng = Inl NotAvailableV3) \<and>
         (encryptV3 P kr password opts rng = Inr (ks, rng') \<longrightarrow>
            length (keys kr ! RoleTransactionKey) \<le> 1 \<and> keys kr ! RoleAccountUpdateKey = [] \<and>
            keys kr ! RoleFeePayerKey = [] \<and> version ks = Some 3 \<and> keyring ks = None)"
proof -
  from assms obtain k0 k1 k2 where ks3: "keys kr = [k0, k1, k2]"
    by (auto simp: RoleLast_def numeral_3_eq_3 length_Suc_conv)
  note o = otherRolesEmpty_two [OF ks3]
  have a: "encryptV3 P kr password opts rng = Inl NotAvailableV3"
    if "length k0 > 1 \<or> k1 \<noteq> [] \<or> k2 \<noteq> []"
    using that ks3 by (auto simp: encryptV3_def o RoleTransactionKey_def)
  have b: "length k0 \<le> 1 \<and> k1 = [] \<and> k2 = [] \<and> version ks = Some 3 \<and> keyring ks = None"
    if r: "encryptV3 P kr password opts rng = Inr (ks, rng')"
  proof -
    from r a have s: "length k0 \<le> 1" "k1 = []" "k2 = []"
      by (auto simp: not_less [symmetric])
    with r ks3 obtain j o' r' where "formatEncrypted P 3 (address kr) j o' r' = Inr (ks, rng')"
      by (auto simp: encryptV3_def o RoleTransactionKey_def Let_def split: sum.splits)
    from formatEncrypted_3 [OF this] s show ?thesis by simp
  qed
  from a b ks3 show ?thesis
    by (simp add: RoleTransactionKey_def RoleAccountUpdateKey_def RoleFeePayerKey_def)
qed

theorem encryptV3_shape_witness:
  "length (keys example_keyring) = RoleLast \<and>
   length (keys example_keyring ! RoleTransactionKey) > 1 \<and>
   encryptV3 example_prims example_keyring ''pw'' (Some example_options) 0 = Inl NotAvailableV3 \<and>
   length (keys \<lparr> address = ''0xaa'', keys = [[PrivateKey ''0xaa01''], [], []] \<rparr>) = RoleLast \<and>
   (\<exists>ks r. encryptV3 example_prims \<lparr> address = ''0xaa'', keys = [[PrivateKey ''0xaa01''], [], []] \<rparr>
              ''pw'' (Some example_options) 0 = Inr (ks, r) \<and> version ks = Some 3)"
proof -
  have l: "length (keys example_keyring) = RoleLast"
    by (simp add: example_keyring_def RoleLast_def)
  have m: "length (keys example_keyring ! RoleTransactionKey) > 1"
    by (simp add: example_keyring_def RoleTransactionKey_def)
  have f: "encryptV3 example_prims example_keyring ''pw'' (Some example_options) 0 = Inl NotAvailableV3"
    using encryptV3_shape [OF l, of example_prims "''pw''" "Some example_options" 0] m by blast
  have l1: "length (keys \<lparr> address = ''0xaa'', keys = [[PrivateKey ''0xaa01''], [], []] \<rparr>) = RoleLast"
    by (simp add: RoleLast_def)
  have "\<exists>ks r. encryptV3 example_prims \<lparr> address = ''0xaa'', keys = [[PrivateKey ''0xaa01''], [], []] \<rparr>
              ''pw'' (Some example_options) 0 = Inr (ks, r)"
    by (simp add: encryptV3_def encryptKey_def encryptEntry_def formatEncrypted_def
        example_prims_def example_options_def orString_def orNumber_def
        bytesToHex_def byteToHex_def hexDigit_def hexValue_def passwordBytes_def
        RoleTransactionKey_def RoleAccountUpdateKey_def RoleLast_def nth_opt_def toLowerCase_def
        lowerChar_def upt_rec)
  then obtain ks r where e: "encryptV3 example_prims
      \<lparr> address = ''0xaa'', keys = [[PrivateKey ''0xaa01''], [], []] \<rparr>
      ''pw'' (Some example_options) 0 = Inr (ks, r)"
    by blast
  with encryptV3_shape [OF l1, of example_prims "''pw''" "Some example_options" 0 ks r]
  have "version ks = Some 3" by blast
  with l m f l1 e show ?thesis by blast
qed

section \<open>The version check of \<open>Keyring.decrypt\<close>\<close>

lemma decryptEntry_log:
  "decryptEntry P password entry log =
     (fst (decryptEntry P password entry []), log @ snd (decryptEntry P password entry []))"
  by (cases entry) (simp_all add: decryptEntry_def Let_def split: sum.splits option.splits)

lemma decryptLoop_log:
  "decryptLoop P password es acc log =
     (fst (decryptLoop P password es acc []), log @ snd (decryptLoop P password es acc []))"
proof (induction es arbitrary: acc log)
  case Nil
  then show ?case by simp
next
  case (Cons e es)
  obtain r evs where d: "decryptEntry P password e [] = (r, evs)"
    by (cases "decryptEntry P password e []")
  with decryptEntry_log [of P password e log]
  have dl: "decryptEntry P password e log = (r, log @ evs)" by simp
  show ?case
  proof (cases r)
    case (Inl err)
    with d dl show ?thesis by simp
  next
    case (Inr k)
    with d dl Cons.IH [of "acc @ [k]" "log @ evs"] Cons.IH [of "acc @ [k]" evs]
    show ?thesis by simp
  qed
qed

lemma decryptKey_log:
  "decryptKey P j password log =
     (fst (decryptKey P j password []), log @ snd (decryptKey P j password []))"
proof (cases j)
  case None
  then show ?thesis by (simp add: decryptKey_def)
next
  case (Some a)
  show ?thesis
  proof (cases a)
    case (Obj c)
    with Some show ?thesis by (simp add: decryptKey_def)
  next
    case (Arr xs)
    obtain r evs where d: "decryptLoop P password xs [] [] = (r, evs)"
      by (cases "decryptLoop P password xs [] []")
    with decryptLoop_log [of P password xs "[]" log]
    have "decryptLoop P password xs [] log = (r, log @ evs)" by simp
    with d Some Arr show ?thesis
      by (cases r) (simp_all add: decryptKey_def)
  qed
qed

lemma decryptFlat_log:
  "decryptFlat U P kr addr password log =
     (fst (decryptFlat U P kr addr password []), log @ snd (decryptFlat U P kr addr password []))"
proof -
  obtain r evs where d: "decryptKey P (Some kr) password [] = (r, evs)"
    by (cases "decryptKey P (Some kr) password []")
  with decryptKey_log [of P "Some kr" password log]
  have "decryptKey P (Some kr) password log = (r, log @ evs)" by simp
  with d show ?thesis
    by (cases r) (simp_all add: decryptFlat_def Let_def)
qed

lemma decryptRoleBased_log:
  "decryptRoleBased U P kr addr password log =
     (fst (decryptRoleBased U P kr addr password []),
      log @ snd (decryptRoleBased U P kr addr password []))"
proof -
  obtain r1 e1 where d1: "decryptKey P (jindex kr RoleTransactionKey) password [] = (r1, e1)"
    by (cases "decryptKey P (jindex kr RoleTransactionKey) password []")
  obtain r2 e2 where d2: "decryptKey P (jindex kr RoleAccountUpdateKey) password [] = (r2, e2)"
    by (cases "decryptKey P (jindex kr RoleAccountUpdateKey) password []")
  obtain r3 e3 where d3: "decryptKey P (jindex kr RoleFeePayerKey) password [] = (r3, e3)"
    by (cases "decryptKey P (jindex kr RoleFeePayerKey) password []")
  have l1: "decryptKey P (jindex kr RoleTransactionKey) password l = (r1, l @ e1)" for l
    using decryptKey_log [of P "jindex kr RoleTransactionKey" password l] d1 by simp
  have l2: "decryptKey P (jindex kr RoleAccountUpdateKey) password l = (r2, l @ e2)" for l
    using decryptKey_log [of P "jindex kr RoleAccountUpdateKey" password l] d2 by simp
  have l3: "decryptKey P (jindex kr RoleFeePayerKey) password l = (r3, l @ e3)" for l
    using decryptKey_log [of P "jindex kr RoleFeePayerKey" password l] d3 by simp
  show ?thesis
    unfolding decryptRoleBased_def l1 l2 l3
    by (cases r1; cases r2; cases r3) simp_all
qed

text \<open>
  C10: a keystore whose \<open>version\<close> is neither 3 nor 4 is not rejected for it.  With a
  \<open>keyring\<close> field and no \<open>crypto\<close> field, \<open>Keyring.decrypt\<close> returns what it returns for
  the same record with version 4, and its events are the warning followed by the events
  of that call; with a \<open>crypto\<close> field and no \<open>keyring\<close> field the same holds with
  version 3.  The format checks reject a version 3 record without \<open>crypto\<close>, a version 4
  record without \<open>keyring\<close>, and any record with both fields.
\<close>

theorem decrypt_other_version:
  "(version json \<noteq> Some 3 \<and> version json \<noteq> Some 4 \<and> keyring json \<noteq> None \<and> crypto json = None \<longrightarrow>
      decrypt U P json password =
        (fst (decrypt U P (json \<lparr> version := Some 4 \<rparr>) password),
         Warn ''This is not a V3 or V4 wallet.'' #
           snd (decrypt U P (json \<lparr> version := Some 4 \<rparr>) password))) \<and>
   (version json \<noteq> Some 3 \<and> version json \<noteq> Some 4 \<and> crypto json \<noteq> None \<and> keyring json = None \<longrightarrow>
      decrypt U P json password =
        (fst (decrypt U P (json \<lparr> version := Some 3 \<rparr>) password),
         Warn ''This is not a V3 or V4 wallet.'' #
           snd (decrypt U P (json \<lparr> version := Some 3 \<rparr>) password))) \<and>
   (version json = Some 3 \<and> crypto json = None \<longrightarrow>
      fst (decrypt U P json password) = Inl InvalidV3Format) \<and>
   (version json = Some 4 \<and> keyring json = None \<longrightarrow>
      fst (decrypt U P json password) = Inl InvalidV4Format) \<and>
   (crypto json \<noteq> None \<and> keyring json \<noteq> None \<longrightarrow>
      fst (decrypt U P json password) = Inl CryptoAndKeyring)"
proof -
  let ?w = "Warn ''This is not a V3 or V4 wallet.''"
  have rb: "decryptRoleBased U P kr a password [?w] =
      (fst (decryptRoleBased U P kr a password []), ?w # snd (decryptRoleBased U P kr a password []))"
    for kr a
    using decryptRoleBased_log [of U P kr a password "[?w]"] by simp
  have fl: "decryptFlat U P kr a password [?w] =
      (fst (decryptFlat U P kr a password []), ?w # snd (decryptFlat U P kr a password []))"
    for kr a
    using decryptFlat_log [of U P kr a password "[?w]"] by simp
  have v4: "decrypt U P json password =
        (fst (decrypt U P (json \<lparr> version := Some 4 \<rparr>) password),
         ?w # snd (decrypt U P (json \<lparr> version := Some 4 \<rparr>) password))"
    if "version json \<noteq> Some 3" "version json \<noteq> Some 4" "keyring json \<noteq> None" "crypto json = None"
    using that by (auto simp: decrypt_def rb fl)
  have v3: "decrypt U P json password =
        (fst (decrypt U P (json \<lparr> version := Some 3 \<rparr>) password),
         ?w # snd (decrypt U P (json \<lparr> version := Some 3 \<rparr>) password))"
    if "version json \<noteq> Some 3" "version json \<noteq> Some 4" "crypto json \<noteq> None" "keyring json = None"
    using that by (auto simp: decrypt_def rb fl)
  have e3: "fst (decrypt U P json password) = Inl InvalidV3Format"
    if "version json = Some 3" "crypto json = None"
    using that by (simp add: decrypt_def)
  have e4: "fst (decrypt U P json password) = Inl InvalidV4Format"
    if "version json = Some 4" "keyring json = None"
    using that by (simp add: decrypt_def)
  have both: "fst (decrypt U P json password) = Inl CryptoAndKeyring"
    if "crypto json \<noteq> None" "keyring json \<noteq> None"
    using that by (auto simp: decrypt_def)
  from v4 v3 e3 e4 both show ?thesis by blast
qed

theorem decrypt_other_version_witness:
  "version example_keystore \<noteq> Some 3 \<and> version example_keystore \<noteq> Some 4 \<and>
   keyring example_keystore \<noteq> None \<and> crypto example_keystore = None \<and>
   decrypt example_utils example_prims (example_keystore \<lparr> version := Some 4 \<rparr>) ''pw'' =
     (Inr \<lparr> address = ''0xaa'', keys = [[PrivateKey ''0x88''], [], []] \<rparr>,
      [Decipher ''aes-128-ctr'' (replicate 16 2) [3]]) \<and>
   decrypt example_utils example_prims example_keystore ''pw'' =
     (Inr \<lparr> address = ''0xaa'', keys = [[PrivateKey ''0x88''], [], []] \<rparr>,
      [Warn ''This is not a V3 or V4 wallet.'', Decipher ''aes-128-ctr'' (replicate 16 2) [3]]) \<and>
   decrypt example_utils example_prims
     (example_keystore \<lparr> crypto := Some (Obj example_crypto), keyring := None \<rparr>) ''pw'' =
     (Inr \<lparr> address = ''0xaa'', keys = [[PrivateKey ''0x88''], [], []] \<rparr>,
      [Warn ''This is not a V3 or V4 wallet.'', Decipher ''aes-128-ctr'' (replicate 16 2) [3]]) \<and>
   fst (decrypt example_utils example_prims
     (example_keystore \<lparr> crypto := Some (Obj example_crypto) \<rparr>) ''pw'') = Inl CryptoAndKeyring"
proof -
  let ?kr = "\<lparr> address = ''0xaa'', keys = [[PrivateKey ''0x88''], [], []] \<rparr>"
  let ?d = "Decipher ''aes-128-ctr'' (replicate 16 2) [3]"
  have h: "version example_keystore \<noteq> Some 3 \<and> version example_keystore \<noteq> Some 4 \<and>
      keyring example_keystore \<noteq> None \<and> crypto example_keystore = None"
    by (simp add: example_keystore_def)
  have k: "decryptKey example_prims (Some (Arr [Obj example_crypto])) ''pw'' [] =
      (Inr (Some [''0x88'']), [?d])"
    by (simp add: decryptKey_def decryptEntry_def deriveStoredKey_def example_prims_def
        example_crypto_def passwordBytes_def hexValue_def bytesToHex_def byteToHex_def hexDigit_def
        Let_def sum_list_replicate)
  have c: "createWithRoleBasedKey example_utils ''0xaa'' (KArray [KArray [KString ''0x88''], KArray [], KArray []]) =
      Inr ?kr"
    by (simp add: createWithRoleBasedKey_def isRoleBasedKeysFormat_def isMultipleKeysFormat_def
        newKeyring_def formattingForKeyInKeyring_def generateKeysFormat_def fillRoleKey_def
        kindex_def newPrivateKey_def example_utils_def RoleLast_def upt_rec numeral_3_eq_3
        nth_opt_def addHexPrefix_def startsWith_def toLowerCase_def lowerChar_def)
  have v4: "decrypt example_utils example_prims (example_keystore \<lparr> version := Some 4 \<rparr>) ''pw'' =
      (Inr ?kr, [?d])"
    by (simp add: decrypt_def example_keystore_def jindex_def decryptFlat_def k c RoleLast_def
        numeral_3_eq_3)
  have v3: "decrypt example_utils example_prims
      (example_keystore \<lparr> crypto := Some (Obj example_crypto), keyring := None, version := Some 3 \<rparr>) ''pw'' =
      (Inr ?kr, [?d])"
    by (simp add: decrypt_def example_keystore_def jindex_def decryptFlat_def k c RoleLast_def
        numeral_3_eq_3)
  have w4: "decrypt example_utils example_prims example_keystore ''pw'' =
      (Inr ?kr, [Warn ''This is not a V3 or V4 wallet.'', ?d])"
    using decrypt_other_version [of example_keystore example_utils example_prims "''pw''"] h v4
    by simp
  have w3: "decrypt example_utils example_prims
      (example_keystore \<lparr> crypto := Some (Obj example_crypto), keyring := None \<rparr>) ''pw'' =
      (Inr ?kr, [Warn ''This is not a V3 or V4 wallet.'', ?d])"
    using decrypt_other_version [of "example_keystore \<lparr> crypto := Some (Obj example_crypto),
      keyring := None \<rparr>" example_utils example_prims "''pw''"] v3
    by (simp add: example_keystore_def)
  have b: "fst (decrypt example_utils example_prims
     (example_keystore \<lparr> crypto := Some (Obj example_crypto) \<rparr>) ''pw'') = Inl CryptoAndKeyring"
    using decrypt_other_version [of "example_keystore \<lparr> crypto := Some (Obj example_crypto) \<rparr>"
      example_utils example_prims "''pw''"]
    by (simp add: example_keystore_def)
  from h v4 w4 w3 b show ?thesis by blast
qed

section \<open>Claims about the transaction\<close>

text \<open>
  C7: when the string (with its \<^verbatim>\<open>0x\<close> prefix) does not start with the type tag of the
  variant, \<^verbatim>\<open>_decode\<close> fails with the prefix error, and so do \<open>decode\<close> and the constructor
  on that string, whatever the bytes after the tag are: the RLP decoder is not reached.
\<close>

theorem decode_wrong_tag:
  assumes "\<not> startsWith (addHexPrefix rlpEncoded) (TAG E)"
  shows "decode_raw E rlpEncoded = Inl DecodePrefix \<and>
         decode U E rlpEncoded = Inl DecodePrefix \<and>
         newFeeDelegatedChainDataAnchoring U E (ArgString rlpEncoded) = Inl DecodePrefix"
  using assms
  by (simp add: decode_def decode_raw_def newFeeDelegatedChainDataAnchoring_def)

theorem decode_wrong_tag_witness:
  "\<not> startsWith (addHexPrefix ''0x48d501808201f481aa81abc4c325010281bbc4c3260304'') (TAG example_txenv) \<and>
   rlpDecode example_txenv (''0x'' @ drop 4 ''0x48d501808201f481aa81abc4c325010281bbc4c3260304'') =
     example_fields ''0x01'' ''0x'' ''0x01f4'' \<and>
   decode example_utils example_txenv ''0x48d501808201f481aa81abc4c325010281bbc4c3260304'' =
     Inl DecodePrefix"
proof -
  have a: "\<not> startsWith (addHexPrefix ''0x48d501808201f481aa81abc4c325010281bbc4c3260304'')
      (TAG example_txenv)"
    by (simp add: example_txenv_def startsWith_def addHexPrefix_def)
  have b: "rlpDecode example_txenv
      (''0x'' @ drop 4 ''0x48d501808201f481aa81abc4c325010281bbc4c3260304'') =
     example_fields ''0x01'' ''0x'' ''0x01f4''"
    by (simp add: example_txenv_def)
  from decode_wrong_tag [OF a, of example_utils] a b show ?thesis by blast
qed

lemma natOfHex_examples:
  "natOfHex ''01'' = 1" "natOfHex '''' = 0" "natOfHex ''01f4'' = 500"
  by (simp_all add: natOfHex_def hexValue_def)

lemma superNew_example:
  "superNew example_spec_txenv (example_txobj \<lparr> o_input := i, o_data := None \<rparr>) =
     Inr (example_tx \<lparr> t_from := [], t_input := [] \<rparr>)"
  by (simp add: example_spec_txenv_def superNew_spec_def number_spec_def example_txobj_def
      example_tx_def startsWith_def isHexString_def hexValue_def natOfHex_examples
      signatures_spec_def example_utils_def toLowerCase_def lowerChar_def)

lemma parentRejectsBoth_spec: "parentRejectsBoth (E \<lparr> superNew := superNew_spec U \<rparr>)"
  by (simp add: parentRejectsBoth_def superNew_spec_def)

lemma parentRejectsBoth_example: "parentRejectsBoth example_spec_txenv"
  by (simp add: parentRejectsBoth_def example_spec_txenv_def superNew_spec_def)

text \<open>
  C9: the constructor fails, and returns no transaction, on every object in which
  \<open>input\<close> and \<open>data\<close> are both set and on every object in which neither is.  The test of
  line 76 and the \<open>input\<close> setter decide it, whatever the parent constructor does, when
  both properties hold a truthy (non-empty) value and when neither does (left out, or
  empty).  When both are present and one of them is the empty string, line 76 lets the
  object pass; it is the parent constructor, called first at line 72, that fails on it.
\<close>

theorem constructor_input_data:
  "(truthy (o_input obj) \<and> truthy (o_data obj) \<longrightarrow>
      isl (newFeeDelegatedChainDataAnchoring U E (ArgObject obj))) \<and>
   (\<not> truthy (o_input obj) \<and> \<not> truthy (o_data obj) \<longrightarrow>
      isl (newFeeDelegatedChainDataAnchoring U E (ArgObject obj))) \<and>
   (parentRejectsBoth E \<and> o_input obj \<noteq> None \<and> o_data obj \<noteq> None \<longrightarrow>
      isl (newFeeDelegatedChainDataAnchoring U E (ArgObject obj)))"
proof -
  have i: "set_input U t v = Inl InvalidInput" if "\<not> truthy v" for t v
    using that by (auto simp: set_input_def truthy_def split: option.splits rlp.splits)
  have both: "isl (newFeeDelegatedChainDataAnchoring U E (ArgObject obj))"
    if "truthy (o_input obj)" "truthy (o_data obj)"
    using that by (simp add: newFeeDelegatedChainDataAnchoring_def split: sum.splits)
  have none: "isl (newFeeDelegatedChainDataAnchoring U E (ArgObject obj))"
    if "\<not> truthy (o_input obj)" "\<not> truthy (o_data obj)"
    using that by (simp add: newFeeDelegatedChainDataAnchoring_def jsOr_def i split: sum.splits)
  have present: "isl (newFeeDelegatedChainDataAnchoring U E (ArgObject obj))"
    if "parentRejectsBoth E" "o_input obj \<noteq> None" "o_data obj \<noteq> None"
  proof -
    from that have "isl (superNew E obj)"
      by (simp add: parentRejectsBoth_def)
    then show ?thesis
      by (cases "superNew E obj") (simp_all add: newFeeDelegatedChainDataAnchoring_def)
  qed
  from both none present show ?thesis by blast
qed

theorem constructor_input_data_witness:
  "truthy (o_input (example_txobj \<lparr> o_data := Some (RHex ''0xcd'') \<rparr>)) \<and>
   truthy (o_data (example_txobj \<lparr> o_data := Some (RHex ''0xcd'') \<rparr>)) \<and>
   superNew example_txenv (example_txobj \<lparr> o_data := Some (RHex ''0xcd'') \<rparr>) =
     Inr (example_tx \<lparr> t_from := [], t_input := [] \<rparr>) \<and>
   isl (newFeeDelegatedChainDataAnchoring example_utils example_txenv
          (ArgObject (example_txobj \<lparr> o_data := Some (RHex ''0xcd'') \<rparr>))) \<and>
   \<not> truthy (o_input (example_txobj \<lparr> o_input := None \<rparr>)) \<and>
   \<not> truthy (o_data (example_txobj \<lparr> o_input := None \<rparr>)) \<and>
   superNew example_spec_txenv (example_txobj \<lparr> o_input := None \<rparr>) =
     Inr (example_tx \<lparr> t_from := [], t_input := [] \<rparr>) \<and>
   isl (newFeeDelegatedChainDataAnchoring example_utils example_spec_txenv
          (ArgObject (example_txobj \<lparr> o_input := None \<rparr>))) \<and>
   parentRejectsBoth example_spec_txenv \<and>
   o_input (example_txobj \<lparr> o_input := Some (RHex []), o_data := Some (RHex ''0xab'') \<rparr>) \<noteq> None \<and>
   o_data (example_txobj \<lparr> o_input := Some (RHex []), o_data := Some (RHex ''0xab'') \<rparr>) \<noteq> None \<and>
   isl (newFeeDelegatedChainDataAnchoring example_utils example_spec_txenv
          (ArgObject (example_txobj \<lparr> o_input := Some (RHex []), o_data := Some (RHex ''0xab'') \<rparr>)))"
proof -
  let ?both = "example_txobj \<lparr> o_data := Some (RHex ''0xcd'') \<rparr>"
  let ?none = "example_txobj \<lparr> o_input := None \<rparr>"
  let ?empty = "example_txobj \<lparr> o_input := Some (RHex []), o_data := Some (RHex ''0xab'') \<rparr>"
  have t: "truthy (o_input ?both)" "truthy (o_data ?both)"
    "\<not> truthy (o_input ?none)" "\<not> truthy (o_data ?none)"
    by (simp_all add: truthy_def example_txobj_def)
  have p: "o_input ?empty \<noteq> None" "o_data ?empty \<noteq> None"
    by simp_all
  have s0: "superNew example_txenv ?both = Inr (example_tx \<lparr> t_from := [], t_input := [] \<rparr>)"
    by (simp add: example_txenv_def)
  have s: "superNew example_spec_txenv ?none = Inr (example_tx \<lparr> t_from := [], t_input := [] \<rparr>)"
    using superNew_example [where i = None] by (simp add: example_txobj_def)
  have a: "isl (newFeeDelegatedChainDataAnchoring example_utils example_txenv (ArgObject ?both))"
    using constructor_input_data [of ?both example_utils example_txenv] t by blast
  have b: "isl (newFeeDelegatedChainDataAnchoring example_utils example_spec_txenv (ArgObject ?none))"
    using constructor_input_data [of ?none example_utils example_spec_txenv] t by blast
  have c: "isl (newFeeDelegatedChainDataAnchoring example_utils example_spec_txenv (ArgObject ?empty))"
    using constructor_input_data [of ?empty example_utils example_spec_txenv]
      parentRejectsBoth_example p
    by blast
  from t p s0 s a b c parentRejectsBoth_example show ?thesis by blast
qed

text \<open>
  C6 (the code on a sender address written without the prefix): the \<open>from\<close> setter
  stores the address in lower case as it is given (line 91), while the \<open>input\<close> setter of
  the same class adds the prefix \<^verbatim>\<open>0x\<close> where it is missing (line 103).  For an address
  of forty digits without the prefix, which the address check admits, the constructor
  returns a transaction whose \<open>from\<close> has no prefix, and \<open>getRLPEncoding\<close> hands this
  string to \<^verbatim>\<open>RLP.encode\<close> among fields that all carry the prefix.
\<close>

theorem constructor_keeps_from_unprefixed:
  "newFeeDelegatedChainDataAnchoring example_utils (E \<lparr> superNew := \<lambda>obj. Inr this0 \<rparr>)
     (ArgObject (example_txobj \<lparr> o_from := Some (RHex ''a94f5374fce5edbc8e2a8697c15331677e6ebf0b''),
                                o_input := Some (RHex ''ab'') \<rparr>)) =
     Inr (this0 \<lparr> t_from := ''a94f5374fce5edbc8e2a8697c15331677e6ebf0b'', t_input := ''0xab'' \<rparr>) \<and>
   getRLPEncoding (E \<lparr> validateOptionalValues := \<lambda>t. None \<rparr>)
     (this0 \<lparr> t_from := ''a94f5374fce5edbc8e2a8697c15331677e6ebf0b'', t_input := ''0xab'' \<rparr>) =
     Inr (TAG E @ drop 2 (rlpEncode E
       (RList [RHex (fromNat E (t_nonce this0)), RHex (fromNat E (t_gasPrice this0)),
               RHex (fromNat E (t_gas this0)),
               RHex ''a94f5374fce5edbc8e2a8697c15331677e6ebf0b'', RHex ''0xab'',
               t_signatures this0, RHex (toLowerCase (t_feePayer this0)),
               t_feePayerSignatures this0])))"
  by (simp add: newFeeDelegatedChainDataAnchoring_def set_from_def set_input_def truthy_def
      jsOr_def example_utils_def example_txobj_def addHexPrefix_def startsWith_def
      getRLPEncoding_def rlpFields_def toLowerCase_def lowerChar_def)

end
